theory Spec2Isabelle
  imports Main "HOL-Library.Char_ord" "HOL-Library.List_Lexorder"
begin

section \<open>Conventions of the embedding\<close>

text \<open>
  The development embeds the schedule pipeline of the lesson counter: the violation
  detector (package domain), the deduplication of the remote group schedule, the merge and
  rejoin steps of the tabular parser, and the error flow of the lessons repository.

  \<^item> A Go \<open>string\<close> is a byte sequence: \<^typ>\<open>string\<close>, with non-ASCII text written as its
    UTF-8 bytes. \<open>sort.Strings\<close> orders strings bytewise, which is the lexicographic order
    of \<^typ>\<open>char list\<close> used here.
  \<^item> A Go \<open>int\<close> is a 64-bit machine integer. It is modelled as an \<^typ>\<open>int\<close>; the sum of
    the load rule wraps around as the machine addition does (\<open>wrapInt\<close>), and the theorem
    about it is stated for the days whose hours sum to a machine integer. The slot arithmetic of the gap rule
    is written without the wrap, the bound of the machine integer that the source writes
    (the initial minimum) is kept as the constant \<open>maxInt\<close>, and the theorem about it is
    stated for the period numbers for which its result is that of the machine arithmetic.
  \<^item> A Go map that is only built and then ranged over is an association list in
    first-insertion order. Go does not fix the iteration order of a map; the theorems
    below speak of membership and counts, never of positions, so they hold for each order.
  \<^item> \<open>time.Time\<close> and the functions of package \<open>time\<close> belong to the standard library, not
    to the repository. The type of time values is a type variable, and the three library
    entry points the code calls are passed as a record of functions.
\<close>

record 't TimePkg =
  Parse :: "string \<Rightarrow> string \<Rightarrow> 't"
  Format :: "'t \<Rightarrow> string \<Rightarrow> string"
  ZeroTime :: 't

text \<open>
  \<open>Parse tp layout value\<close> is \<open>time.Parse(layout, value)\<close> with the error dropped, as every
  call site does (\<open>date, _ := time.Parse(...)\<close>); \<open>Format tp t layout\<close> is \<open>t.Format(layout)\<close>;
  \<open>ZeroTime tp\<close> is the zero value \<open>time.Time{}\<close>.
\<close>

section \<open>Package domain: the data model\<close>

record Student =
  Name :: string
  Group :: string
  Department :: string
  Year :: int

record 't Violation =
  StudentName :: string
  VGroup :: string
  VYear :: int
  VDate :: 't
  Type :: string
  VHours :: int

record 't LessonTime =
  Date :: 't
  Number :: int
  PairHalf :: int
  Hours :: int
  StartTime :: 't
  EndTime :: 't

record 't Lesson =
  Time :: "'t LessonTime"
  Discipline :: string
  Teacher :: string
  Cabinet :: string
  LGroup :: string
  LStudent :: string

text \<open>
  The fields \<open>Group\<close>, \<open>Year\<close>, \<open>Date\<close> and \<open>Hours\<close> of \<open>Violation\<close> and the fields \<open>Group\<close> and
  \<open>Student\<close> of \<open>Lesson\<close> carry a letter in front (\<open>VGroup\<close>, \<open>LStudent\<close>, ...), since a field
  name is a constant of the theory and the source uses these names in several structs.
\<close>

definition NewViolation ::
  "string \<Rightarrow> string \<Rightarrow> int \<Rightarrow> 't \<Rightarrow> string \<Rightarrow> int \<Rightarrow> 't Violation" where
  "NewViolation studentName grp year date violationType hours =
     \<lparr>StudentName = studentName, VGroup = grp, VYear = year, VDate = date,
      Type = violationType, VHours = hours\<rparr>"

definition NewLessonTime ::
  "'t \<Rightarrow> int \<Rightarrow> int \<Rightarrow> int \<Rightarrow> 't \<Rightarrow> 't \<Rightarrow> 't LessonTime" where
  "NewLessonTime date number pairHalf hours startTime endTime =
     \<lparr>Date = date, Number = number, PairHalf = pairHalf, Hours = hours,
      StartTime = startTime, EndTime = endTime\<rparr>"

definition DateString :: "'t TimePkg \<Rightarrow> 't LessonTime \<Rightarrow> string" where
  "DateString tp t = Format tp (Date t) ''2006-01-02''"

text \<open>The two violation kinds, as the UTF-8 bytes of the source's string literals.\<close>

definition loadExceeded :: string where
  "loadExceeded =
     [CHR 0xD0, CHR 0x9F, CHR 0xD1, CHR 0x80, CHR 0xD0, CHR 0xB5, CHR 0xD0, CHR 0xB2,
      CHR 0xD1, CHR 0x8B, CHR 0xD1, CHR 0x88, CHR 0xD0, CHR 0xB5, CHR 0xD0, CHR 0xBD,
      CHR 0xD0, CHR 0xB8, CHR 0xD0, CHR 0xB5, CHR 0x20, CHR 0xD0, CHR 0xBD, CHR 0xD0,
      CHR 0xB0, CHR 0xD0, CHR 0xB3, CHR 0xD1, CHR 0x80, CHR 0xD1, CHR 0x83, CHR 0xD0,
      CHR 0xB7, CHR 0xD0, CHR 0xBA, CHR 0xD0, CHR 0xB8]"

definition gapsExceeded :: string where
  "gapsExceeded =
     [CHR 0xD0, CHR 0x9F, CHR 0xD1, CHR 0x80, CHR 0xD0, CHR 0xB5, CHR 0xD0, CHR 0xB2,
      CHR 0xD1, CHR 0x8B, CHR 0xD1, CHR 0x88, CHR 0xD0, CHR 0xB5, CHR 0xD0, CHR 0xBD,
      CHR 0xD0, CHR 0xB8, CHR 0xD0, CHR 0xB5, CHR 0x20, CHR 0xD0, CHR 0xBE, CHR 0xD0,
      CHR 0xBA, CHR 0xD0, CHR 0xBE, CHR 0xD0, CHR 0xBD]"

section \<open>Go maps of slices, built by append\<close>

text \<open>
  \<open>m[k] = append(m[k], v)\<close> on an association list: the value joins the entry of its key,
  or opens a new entry behind the others.
\<close>

fun appendAt :: "'k \<Rightarrow> 'v \<Rightarrow> ('k \<times> 'v list) list \<Rightarrow> ('k \<times> 'v list) list" where
  "appendAt k v [] = [(k, [v])]"
| "appendAt k v ((k', vs) # m) =
     (if k = k' then (k', vs @ [v]) # m else (k', vs) # appendAt k v m)"

fun groupLoop :: "('v \<Rightarrow> 'k) \<Rightarrow> ('k \<times> 'v list) list \<Rightarrow> 'v list \<Rightarrow> ('k \<times> 'v list) list" where
  "groupLoop key m [] = m"
| "groupLoop key m (x # xs) = groupLoop key (appendAt (key x) x m) xs"

section \<open>Package domain: the validator\<close>

text \<open>\<open>collectStudentSchedule\<close>: the loop over \<open>v.lessons\<close>, with its \<open>continue\<close>.\<close>

fun collectStudentSchedule :: "'t Lesson list \<Rightarrow> Student \<Rightarrow> 't Lesson list" where
  "collectStudentSchedule [] student = []"
| "collectStudentSchedule (lesson # lessons) student =
     (if LStudent lesson \<noteq> [] \<and> LStudent lesson = Name student
      then lesson # collectStudentSchedule lessons student
      else if LStudent lesson = [] \<and> LGroup lesson = Group student
      then lesson # collectStudentSchedule lessons student
      else collectStudentSchedule lessons student)"

definition groupByDate :: "'t TimePkg \<Rightarrow> 't Lesson list \<Rightarrow> (string \<times> 't Lesson list) list" where
  "groupByDate tp lessons = groupLoop (\<lambda>lesson. DateString tp (Time lesson)) [] lessons"

text \<open>
  \<open>int(^uint(0) >> 1)\<close>, the largest \<open>int\<close>, on a 64-bit platform. The source's comment says
  that a value around 15 would have done.
\<close>

definition maxInt :: int where
  "maxInt = 9223372036854775807"

text \<open>
  The value a 64-bit \<open>int\<close> holds after an addition whose exact result is \<open>x\<close>: the result
  modulo \<open>2^64\<close>, read as a signed number.
\<close>

definition wrapInt :: "int \<Rightarrow> int" where
  "wrapInt x = (x + 9223372036854775808) mod 18446744073709551616 - 9223372036854775808"

text \<open>\<open>calculateLoad\<close>: \<open>total += lesson.Time.Hours\<close> over the lessons of the day.\<close>

fun calculateLoad_loop :: "int \<Rightarrow> 't Lesson list \<Rightarrow> int" where
  "calculateLoad_loop acc [] = acc"
| "calculateLoad_loop acc (lesson # dayLessons) =
     calculateLoad_loop (wrapInt (acc + Hours (Time lesson))) dayLessons"

definition calculateLoad :: "'t Lesson list \<Rightarrow> int" where
  "calculateLoad dayLessons = calculateLoad_loop 0 dayLessons"

text \<open>
  The loop of \<open>calculateGaps\<close> over the state \<open>(minSlot, maxSlot, occupiedSlots)\<close>; the map
  \<open>occupiedSlots\<close> only ever stores \<open>true\<close>, so it is the set of its keys and \<open>len\<close> is \<open>card\<close>.
\<close>

fun calculateGaps_loop :: "int \<times> int \<times> int set \<Rightarrow> 't Lesson list \<Rightarrow> int \<times> int \<times> int set" where
  "calculateGaps_loop st [] = st"
| "calculateGaps_loop (minSlot, maxSlot, occupiedSlots) (lesson # dayLessons) =
     (if PairHalf (Time lesson) = 0
      then
        (let slot1 = (Number (Time lesson) - 1) * 2;
             slot2 = slot1 + 1
         in calculateGaps_loop
              (if slot1 < minSlot then slot1 else minSlot,
               if slot2 > maxSlot then slot2 else maxSlot,
               insert slot2 (insert slot1 occupiedSlots))
              dayLessons)
      else
        (let slot = (Number (Time lesson) - 1) * 2 + (PairHalf (Time lesson) - 1)
         in calculateGaps_loop
              (if slot < minSlot then slot else minSlot,
               if slot > maxSlot then slot else maxSlot,
               insert slot occupiedSlots)
              dayLessons))"

definition calculateGaps :: "'t Lesson list \<Rightarrow> int" where
  "calculateGaps dayLessons =
     (if dayLessons = [] then 0
      else
        (case calculateGaps_loop (maxInt, - 1, {}) dayLessons of
           (minSlot, maxSlot, occupiedSlots) \<Rightarrow>
             (let totalSlots = maxSlot - minSlot + 1;
                  occupied = int (card occupiedSlots)
              in totalSlots - occupied)))"

definition validateDay :: "Student \<Rightarrow> 't Lesson list \<Rightarrow> 't Violation list" where
  "validateDay student dayLessons =
     (case dayLessons of
        [] \<Rightarrow> []
      | first # _ \<Rightarrow>
          (let date = Date (Time first);
               totalHours = calculateLoad dayLessons;
               violations =
                 (if totalHours > 10
                  then [NewViolation (Name student) (Group student) (Year student) date
                          loadExceeded totalHours]
                  else []);
               gapPairs = calculateGaps dayLessons;
               maxGaps = (if Year student = 1 then 2 else 4)
           in if gapPairs > maxGaps
              then violations @
                   [NewViolation (Name student) (Group student) (Year student) date
                      gapsExceeded gapPairs]
              else violations))"

text \<open>
  \<open>ValidateSchedule\<close>: for each student, for each date of the student's schedule, the
  violations of that day, appended in turn.
\<close>

definition validateStudent :: "'t TimePkg \<Rightarrow> 't Lesson list \<Rightarrow> Student \<Rightarrow> 't Violation list" where
  "validateStudent tp lessons student =
     concat (map (\<lambda>(date, dayLessons). validateDay student dayLessons)
               (groupByDate tp (collectStudentSchedule lessons student)))"

definition ValidateSchedule :: "'t TimePkg \<Rightarrow> Student list \<Rightarrow> 't Lesson list \<Rightarrow> 't Violation list" where
  "ValidateSchedule tp students lessons =
     concat (map (validateStudent tp lessons) students)"

section \<open>The gap rule as the specification words it\<close>

text \<open>
  The half-slots a lesson occupies and the gap count of a day, written from the
  specification: a full period (half 0) occupies the slots \<open>(period - 1) * 2\<close> and
  \<open>(period - 1) * 2 + 1\<close>, a half \<open>h\<close> in \<open>{1, 2}\<close> the slot \<open>(period - 1) * 2 + (h - 1)\<close>;
  the gap count is the span from the least to the greatest occupied slot less the number
  of occupied slots. They are compared with \<open>calculateGaps\<close> below.
\<close>

definition spec_halfSlots :: "'t Lesson \<Rightarrow> int set" where
  "spec_halfSlots lesson =
     (if PairHalf (Time lesson) = 0
      then {(Number (Time lesson) - 1) * 2, (Number (Time lesson) - 1) * 2 + 1}
      else if PairHalf (Time lesson) = 1 \<or> PairHalf (Time lesson) = 2
      then {(Number (Time lesson) - 1) * 2 + (PairHalf (Time lesson) - 1)}
      else {})"

definition spec_gapCount :: "'t Lesson list \<Rightarrow> int" where
  "spec_gapCount dayLessons =
     (let occupied = \<Union> (set (map spec_halfSlots dayLessons))
      in (Max occupied - Min occupied + 1) - int (card occupied))"

text \<open>The slots one iteration of the loop of \<open>calculateGaps\<close> marks, for any half-period value.\<close>

definition loopSlots :: "'t Lesson \<Rightarrow> int set" where
  "loopSlots lesson =
     (if PairHalf (Time lesson) = 0
      then {(Number (Time lesson) - 1) * 2, (Number (Time lesson) - 1) * 2 + 1}
      else {(Number (Time lesson) - 1) * 2 + (PairHalf (Time lesson) - 1)})"

section \<open>Package infrastructure: the remote group schedule\<close>

text \<open>\<open>LessonData\<close>: one lesson record of the portal's JSON answer.\<close>

record LessonData =
  WeekDayNum :: int
  WeekDayDate :: string
  WeekDateStart :: string
  WeekDateEnd :: string
  LessonNum :: int
  LessonTimeStart :: string
  LessonTimeEnd :: string
  DiscName :: string
  DiscType :: string
  DiscSubgroup :: string
  TeacherName :: string
  AuditName :: string
  GroupName :: string

text \<open>The zero value \<open>LessonData{}\<close>.\<close>

definition zeroLessonData :: LessonData where
  "zeroLessonData =
     \<lparr>WeekDayNum = 0, WeekDayDate = [], WeekDateStart = [], WeekDateEnd = [], LessonNum = 0,
      LessonTimeStart = [], LessonTimeEnd = [], DiscName = [], DiscType = [],
      DiscSubgroup = [], TeacherName = [], AuditName = [], GroupName = []\<rparr>"

text \<open>
  The discipline name under which the portal lists individual lessons
  (\<open>"\<dots>"\<close> in the source is the UTF-8 text below); such records are skipped.
\<close>

definition individualPlaceholder :: string where
  "individualPlaceholder =
     [CHR 0xD0, CHR 0x98, CHR 0xD0, CHR 0xBD, CHR 0xD0, CHR 0xB4, CHR 0xD0, CHR 0xB8,
      CHR 0xD0, CHR 0xB2, CHR 0xD0, CHR 0xB8, CHR 0xD0, CHR 0xB4, CHR 0xD1, CHR 0x83,
      CHR 0xD0, CHR 0xB0, CHR 0xD0, CHR 0xBB, CHR 0xD1, CHR 0x8C, CHR 0xD0, CHR 0xBD,
      CHR 0xD1, CHR 0x8B, CHR 0xD0, CHR 0xB5, CHR 0x20, CHR 0xD0, CHR 0xB7, CHR 0xD0,
      CHR 0xB0, CHR 0xD0, CHR 0xBD, CHR 0xD1, CHR 0x8F, CHR 0xD1, CHR 0x82, CHR 0xD0,
      CHR 0xB8, CHR 0xD1, CHR 0x8F]"

text \<open>\<open>strings.Join(elems, sep)\<close>.\<close>

fun join :: "string list \<Rightarrow> string \<Rightarrow> string" where
  "join [] sep = []"
| "join [x] sep = x"
| "join (x # y # xs) sep = x @ sep @ join (y # xs) sep"

text \<open>
  The discipline text of a record: \<open>fmt.Sprintf("%s [%s]", d.DiscName, d.DiscType)\<close> when the
  type is not empty, the bare name otherwise. \<open>createLesson\<close> and \<open>mergeLessons\<close> both
  compute it.
\<close>

definition disciplineOf :: "LessonData \<Rightarrow> string" where
  "disciplineOf d =
     (if DiscType d \<noteq> [] then DiscName d @ '' ['' @ DiscType d @ '']'' else DiscName d)"

definition createLesson :: "'t TimePkg \<Rightarrow> LessonData \<Rightarrow> 't Lesson" where
  "createLesson tp data =
     (let date = Parse tp ''2006-01-02'' (WeekDayDate data);
          startTime = Parse tp ''15:04'' (LessonTimeStart data);
          endTime = Parse tp ''15:04'' (LessonTimeEnd data);
          discipline = disciplineOf data
      in \<lparr>Time = NewLessonTime date (LessonNum data) 0 2 startTime endTime,
          Discipline = discipline,
          Teacher = TeacherName data,
          Cabinet = AuditName data,
          LGroup = GroupName data,
          LStudent = []\<rparr>)"

definition mergeLessons :: "LessonData list \<Rightarrow> LessonData" where
  "mergeLessons data =
     (case data of
        [] \<Rightarrow> zeroLessonData
      | first # _ \<Rightarrow>
          (let disciplines = map disciplineOf data;
               teachers = map TeacherName data;
               cabinets = map AuditName data
           in first\<lparr>DiscName := join disciplines '' / '',
                     TeacherName := join teachers '' & '',
                     AuditName := join cabinets '' / ''\<rparr>))"

text \<open>
  \<open>deduplicateLessons\<close>: the first loop fills the map \<open>groups\<close>, keyed by date and period
  number, skipping the individual-lesson records; the second ranges over the map and
  emits one lesson for each entry.
\<close>

fun deduplicate_groups ::
  "((string \<times> int) \<times> LessonData list) list \<Rightarrow> LessonData list \<Rightarrow>
   ((string \<times> int) \<times> LessonData list) list" where
  "deduplicate_groups groups [] = groups"
| "deduplicate_groups groups (data # lessonsData) =
     (if DiscName data = individualPlaceholder
      then deduplicate_groups groups lessonsData
      else deduplicate_groups
             (appendAt (WeekDayDate data, LessonNum data) data groups) lessonsData)"

definition deduplicate_emit :: "'t TimePkg \<Rightarrow> LessonData list \<Rightarrow> 't Lesson" where
  "deduplicate_emit tp grp =
     (if length grp = 1 \<and> DiscSubgroup (hd grp) = ''0''
      then createLesson tp (hd grp)
      else createLesson tp (mergeLessons grp))"

definition deduplicateLessons :: "'t TimePkg \<Rightarrow> LessonData list \<Rightarrow> 't Lesson list" where
  "deduplicateLessons tp lessonsData =
     map (\<lambda>(key, grp). deduplicate_emit tp grp) (deduplicate_groups [] lessonsData)"

text \<open>
  \<open>GroupScheduleParser.Parse\<close>. The three requests to the portal are inputs of the model:
  each gives an error text or its answer (the two lookup tables, the lesson records). The
  fields of the parser carry \<open>gsp_\<close> in front, the receiver's name in the source.
\<close>

record GroupScheduleParser =
  gsp_departmentName :: string
  gsp_groupName :: string
  gsp_weekStart :: string

record Portal =
  fetchDepartments :: "string + (string \<rightharpoonup> string)"
  fetchGroups :: "string \<Rightarrow> string + (string \<rightharpoonup> string)"
  fetchLessons :: "string \<Rightarrow> string + LessonData list"

datatype fetchError =
    FetchDepartmentsFailed string
  | DepartmentNotFound string
  | FetchGroupsFailed string
  | GroupNotFound string
  | FetchLessonsFailed string

definition GroupScheduleParser_Parse ::
  "'t TimePkg \<Rightarrow> Portal \<Rightarrow> GroupScheduleParser \<Rightarrow> fetchError + 't Lesson list" where
  "GroupScheduleParser_Parse tp portal gsp =
     (case fetchDepartments portal of
        Inl err \<Rightarrow> Inl (FetchDepartmentsFailed err)
      | Inr departments \<Rightarrow>
          (case departments (gsp_departmentName gsp) of
             None \<Rightarrow> Inl (DepartmentNotFound (gsp_departmentName gsp))
           | Some departmentID \<Rightarrow>
               (case fetchGroups portal departmentID of
                  Inl err \<Rightarrow> Inl (FetchGroupsFailed err)
                | Inr groups \<Rightarrow>
                    (case groups (gsp_groupName gsp) of
                       None \<Rightarrow> Inl (GroupNotFound (gsp_groupName gsp))
                     | Some groupID \<Rightarrow>
                         (case fetchLessons portal groupID of
                            Inl err \<Rightarrow> Inl (FetchLessonsFailed err)
                          | Inr lessonsData \<Rightarrow> Inr (deduplicateLessons tp lessonsData))))))"

section \<open>Package infrastructure: the tabular parser of individual lessons\<close>

text \<open>
  The functions \<open>strings.Fields\<close> and \<open>strings.TrimSpace\<close> of the standard library split and
  trim at Unicode white space; they are inputs of the model.
\<close>

record StringsPkg =
  Fields :: "string \<Rightarrow> string list"
  TrimSpace :: "string \<Rightarrow> string"

text \<open>
  \<open>strings.Split(s, "/")\<close>: the pieces of \<open>s\<close> between the slashes, one more than there are
  slashes. The byte of the slash occurs in no multi-byte UTF-8 sequence, so splitting bytes
  is splitting text.
\<close>

fun splitSlash :: "string \<Rightarrow> string list" where
  "splitSlash [] = [[]]"
| "splitSlash (c # s) =
     (if c = CHR ''/'' then [] # splitSlash s
      else (case splitSlash s of
              [] \<Rightarrow> [[c]]
            | piece # pieces \<Rightarrow> (c # piece) # pieces))"

text \<open>
  \<open>extractStudentNames\<close>, from the text of the student cell: an error for an empty cell, the
  trimmed pieces around the slashes when there is a slash, the name twice otherwise.
\<close>

datatype cellError = EmptyStudentCell

definition extractStudentNames :: "StringsPkg \<Rightarrow> string \<Rightarrow> cellError + string list" where
  "extractStudentNames sp cell =
     (if cell = [] then Inl EmptyStudentCell
      else
        (let studentNameCell = join (Fields sp cell) '' ''
         in if CHR ''/'' \<in> set studentNameCell
            then Inr (map (TrimSpace sp) (splitSlash studentNameCell))
            else Inr [studentNameCell, studentNameCell]))"

text \<open>
  The innermost loop of \<open>Parse\<close> (\<open>for index, studentName := range studentNames\<close>): one record
  for each name, from the values extracted for the row. \<open>index\<close> counts from the given start.
\<close>

fun studentLessons ::
  "'t \<Rightarrow> int \<Rightarrow> string \<Rightarrow> string \<Rightarrow> string \<Rightarrow> string \<Rightarrow> 't \<Rightarrow> 't \<Rightarrow> int \<Rightarrow> string list \<Rightarrow>
   't Lesson list" where
  "studentLessons date lessonNumber disciplineName teacherName cabinetNumber groupName
     startTime endTime index [] = []"
| "studentLessons date lessonNumber disciplineName teacherName cabinetNumber groupName
     startTime endTime index (studentName # studentNames) =
     (let lessonGroup = (if studentName = [] then [] else groupName);
          hoursStub = 1;
          pairHalf = index + 1;
          lesson =
            \<lparr>Time = NewLessonTime date lessonNumber pairHalf hoursStub startTime endTime,
             Discipline = disciplineName,
             Teacher = teacherName,
             Cabinet = cabinetNumber,
             LGroup = lessonGroup,
             LStudent = studentName\<rparr>
      in lesson #
         studentLessons date lessonNumber disciplineName teacherName cabinetNumber groupName
           startTime endTime (index + 1) studentNames)"

text \<open>The verb \<open>%d\<close> of \<open>fmt.Sprintf\<close> on an \<open>int\<close>: decimal digits, with a minus sign below zero.\<close>

fun showNat :: "nat \<Rightarrow> string" where
  "showNat n =
     (if n < 10 then [''0123456789'' ! n]
      else showNat (n div 10) @ [''0123456789'' ! (n mod 10)])"

definition showInt :: "int \<Rightarrow> string" where
  "showInt i = (if i < 0 then CHR ''-'' # showNat (nat (- i)) else showNat (nat i))"

text \<open>
  \<open>mergeTeachers\<close>. The key is the text
  \<open>fmt.Sprintf("%s|%d|%d|%s|%s|%s|%s", date, number, half, discipline, cabinet, group, student)\<close>.
  The set \<open>teacherSet\<close> is listed in some order and then sorted: that is the sorted list of
  the set.
\<close>

definition mergeKey :: "'t TimePkg \<Rightarrow> 't Lesson \<Rightarrow> string" where
  "mergeKey tp lesson =
     DateString tp (Time lesson) @ ''|'' @ showInt (Number (Time lesson)) @ ''|'' @
     showInt (PairHalf (Time lesson)) @ ''|'' @ Discipline lesson @ ''|'' @
     Cabinet lesson @ ''|'' @ LGroup lesson @ ''|'' @ LStudent lesson"

definition mergeTeachers_emit :: "'t Lesson list \<Rightarrow> 't Lesson list" where
  "mergeTeachers_emit grp =
     (if length grp = 0 then []
      else
        (let merged = hd grp
         in if length grp > 1
            then
              (let teacherSet = set (filter (\<lambda>t. t \<noteq> []) (map Teacher grp));
                   teachers = sorted_list_of_set teacherSet
               in [merged\<lparr>Teacher := join teachers ''& ''\<rparr>])
            else [merged]))"

definition mergeTeachers :: "'t TimePkg \<Rightarrow> 't Lesson list \<Rightarrow> 't Lesson list" where
  "mergeTeachers tp lessons =
     concat (map (\<lambda>(key, grp). mergeTeachers_emit grp) (groupLoop (mergeKey tp) [] lessons))"

text \<open>
  \<open>joinIndLessons\<close>. \<open>lessonsMap\<close> maps a key (student, date, period number) to a map from
  the half-period to a lesson; a later lesson of the same key and half replaces an earlier
  one. The inner map is only read at 1 and 2.
\<close>

type_synonym lessonKey = "string \<times> string \<times> int"

definition joinKey :: "'t TimePkg \<Rightarrow> 't Lesson \<Rightarrow> lessonKey" where
  "joinKey tp lesson = (LStudent lesson, DateString tp (Time lesson), Number (Time lesson))"

fun joinInd_put ::
  "lessonKey \<Rightarrow> int \<Rightarrow> 't Lesson \<Rightarrow> (lessonKey \<times> (int \<rightharpoonup> 't Lesson)) list \<Rightarrow>
   (lessonKey \<times> (int \<rightharpoonup> 't Lesson)) list" where
  "joinInd_put key half lesson [] = [(key, [half \<mapsto> lesson])]"
| "joinInd_put key half lesson ((key', pairMap) # lessonsMap) =
     (if key = key' then (key', pairMap(half \<mapsto> lesson)) # lessonsMap
      else (key', pairMap) # joinInd_put key half lesson lessonsMap)"

fun joinInd_collect ::
  "'t TimePkg \<Rightarrow> (lessonKey \<times> (int \<rightharpoonup> 't Lesson)) list \<Rightarrow> 't Lesson list \<Rightarrow>
   (lessonKey \<times> (int \<rightharpoonup> 't Lesson)) list" where
  "joinInd_collect tp lessonsMap [] = lessonsMap"
| "joinInd_collect tp lessonsMap (lesson # lessons) =
     joinInd_collect tp
       (joinInd_put (joinKey tp lesson) (PairHalf (Time lesson)) lesson lessonsMap) lessons"

text \<open>The zero value \<open>domain.Lesson{}\<close>, which \<open>resultLesson\<close> holds until it is assigned.\<close>

definition zeroLesson :: "'t TimePkg \<Rightarrow> 't Lesson" where
  "zeroLesson tp =
     \<lparr>Time = NewLessonTime (ZeroTime tp) 0 0 0 (ZeroTime tp) (ZeroTime tp),
      Discipline = [], Teacher = [], Cabinet = [], LGroup = [], LStudent = []\<rparr>"

definition joinInd_emit :: "'t TimePkg \<Rightarrow> (int \<rightharpoonup> 't Lesson) \<Rightarrow> 't Lesson" where
  "joinInd_emit tp pairMap =
     (case (pairMap 1, pairMap 2) of
        (Some lesson1, Some lesson2) \<Rightarrow>
          lesson1
            \<lparr>Time := (Time lesson1)
                \<lparr>PairHalf := 0, Hours := 2, EndTime := EndTime (Time lesson2)\<rparr>,
             Discipline :=
               (if Discipline lesson1 = Discipline lesson2 then Discipline lesson1
                else Discipline lesson1 @ ''/'' @ Discipline lesson2),
             Teacher :=
               (if Teacher lesson1 = Teacher lesson2 then Teacher lesson1
                else Teacher lesson1 @ ''/'' @ Teacher lesson2),
             Cabinet :=
               (if Cabinet lesson1 = Cabinet lesson2 then Cabinet lesson1
                else Cabinet lesson1 @ ''/'' @ Cabinet lesson2)\<rparr>
      | (Some lesson1, None) \<Rightarrow>
          lesson1
            \<lparr>Discipline := Discipline lesson1 @ ''/'',
             Teacher := Teacher lesson1 @ ''/'',
             Cabinet := Cabinet lesson1 @ ''/''\<rparr>
      | (None, Some lesson2) \<Rightarrow>
          lesson2
            \<lparr>Discipline := ''/'' @ Discipline lesson2,
             Teacher := ''/'' @ Teacher lesson2,
             Cabinet := ''/'' @ Cabinet lesson2\<rparr>
      | (None, None) \<Rightarrow> zeroLesson tp)"

definition joinIndLessons :: "'t TimePkg \<Rightarrow> 't Lesson list \<Rightarrow> 't Lesson list" where
  "joinIndLessons tp lessons =
     map (\<lambda>(key, pairMap). joinInd_emit tp pairMap) (joinInd_collect tp [] lessons)"

text \<open>
  For the statement of the rejoin step, in the words of the specification and without the
  key of the code: the group of a student, a date (in its string form) and a period
  number is the lessons of the input with that student, date and number, and the record
  of half \<open>h\<close> of the group is the last of them with that half, if there is one.
\<close>

definition lastOf :: "'a list \<Rightarrow> 'a option" where
  "lastOf xs = (if xs = [] then None else Some (last xs))"

definition spec_halfRecord ::
  "'t TimePkg \<Rightarrow> 't Lesson list \<Rightarrow> string \<Rightarrow> string \<Rightarrow> int \<Rightarrow> int \<Rightarrow> 't Lesson option" where
  "spec_halfRecord tp lessons student date number h =
     lastOf [x \<leftarrow> lessons. LStudent x = student \<and> DateString tp (Time x) = date \<and>
                            Number (Time x) = number \<and> PairHalf (Time x) = h]"

text \<open>The same for a key of the code, for the facts about the map under construction.\<close>

definition halfOf :: "'t TimePkg \<Rightarrow> 't Lesson list \<Rightarrow> lessonKey \<Rightarrow> int \<Rightarrow> 't Lesson option" where
  "halfOf tp lessons key h =
     lastOf [x \<leftarrow> lessons. joinKey tp x = key \<and> PairHalf (Time x) = h]"

text \<open>The lesson that a map under construction holds for a key and a half, if any.\<close>

definition initHalf :: "(lessonKey \<times> (int \<rightharpoonup> 't Lesson)) list \<Rightarrow> lessonKey \<Rightarrow> int \<Rightarrow> 't Lesson option" where
  "initHalf m k h = (case map_of m k of None \<Rightarrow> None | Some pm \<Rightarrow> pm h)"

text \<open>
  The file system of the tabular parser is an input: the outcome of \<open>os.Getwd\<close> (an error
  or the directory), the visits that \<open>filepath.Walk\<close> makes below a directory, in its
  order, \<open>strings.ToLower\<close>, and for a path the outcome of \<open>xls.Open\<close> followed by
  \<open>GetSheet(0)\<close>. A visit hands the callback an error, or a path with the name of the
  entry and whether it is a directory. A sheet is given by the lessons that the loops
  over its instructor blocks, days and rows append to \<open>allLessons\<close>.
\<close>

datatype walkVisit = VisitError string | Visit string string bool

datatype 't xlsFile = OpenFailed string | NoSheet | Sheet "'t Lesson list"

record 't FileSystem =
  Getwd :: "string + string"
  Walk :: "string \<Rightarrow> walkVisit list"
  ToLower :: "string \<Rightarrow> string"
  xlsOpen :: "string \<Rightarrow> 't xlsFile"

definition HasSuffix :: "string \<Rightarrow> string \<Rightarrow> bool" where
  "HasSuffix s suffix =
     (length suffix \<le> length s \<and> drop (length s - length suffix) s = suffix)"

text \<open>
  The callback of \<open>loadFilePaths\<close> over the visits of the walk: an error ends the walk and
  is its result; the path of an entry that is no directory and whose name in lower case
  ends in \<open>.xls\<close> is appended to \<open>filePaths\<close>.
\<close>

fun walkFn :: "(string \<Rightarrow> string) \<Rightarrow> string list \<Rightarrow> walkVisit list \<Rightarrow> string + string list" where
  "walkFn toLower filePaths [] = Inr filePaths"
| "walkFn toLower filePaths (VisitError err # visits) = Inl err"
| "walkFn toLower filePaths (Visit path name isDir # visits) =
     (if \<not> isDir \<and> HasSuffix (toLower name) ''.xls''
      then walkFn toLower (filePaths @ [path]) visits
      else walkFn toLower filePaths visits)"

datatype loadError = GetwdFailed string | WalkFailed string | NoFilesFound string

definition loadFilePaths :: "'t FileSystem \<Rightarrow> loadError + string list" where
  "loadFilePaths fs =
     (case Getwd fs of
        Inl err \<Rightarrow> Inl (GetwdFailed err)
      | Inr dataDir \<Rightarrow>
          (case walkFn (ToLower fs) [] (Walk fs dataDir) of
             Inl err \<Rightarrow> Inl (WalkFailed err)
           | Inr filePaths \<Rightarrow>
               if length filePaths = 0 then Inl (NoFilesFound dataDir) else Inr filePaths))"

text \<open>
  The loop of \<open>Parse\<close> over the files: a file that cannot be opened and a file without a
  first sheet are passed over by \<open>continue\<close>, with no log line.
\<close>

fun scanFiles :: "(string \<Rightarrow> 't xlsFile) \<Rightarrow> 't Lesson list \<Rightarrow> string list \<Rightarrow> 't Lesson list" where
  "scanFiles openFile allLessons [] = allLessons"
| "scanFiles openFile allLessons (filePath # filePaths) =
     (case openFile filePath of
        OpenFailed err \<Rightarrow> scanFiles openFile allLessons filePaths
      | NoSheet \<Rightarrow> scanFiles openFile allLessons filePaths
      | Sheet found \<Rightarrow> scanFiles openFile (allLessons @ found) filePaths)"

text \<open>\<open>IndividualScheduleParser.Parse\<close>; \<open>filePaths\<close> is empty in a new parser.\<close>

datatype parseError = LoadFilesFailed loadError | NoLessonsFound

definition IndividualScheduleParser_Parse ::
  "'t TimePkg \<Rightarrow> 't FileSystem \<Rightarrow> parseError + 't Lesson list" where
  "IndividualScheduleParser_Parse tp fs =
     (case loadFilePaths fs of
        Inl err \<Rightarrow> Inl (LoadFilesFailed err)
      | Inr filePaths \<Rightarrow>
          (let allLessons = scanFiles (xlsOpen fs) [] filePaths
           in if length allLessons = 0 then Inl NoLessonsFound
              else
                (let mergedLessons = mergeTeachers tp allLessons;
                     joinedLessons = joinIndLessons tp mergedLessons
                 in Inr joinedLessons)))"

section \<open>The lessons repository and the schedule service\<close>

text \<open>
  \<open>GroupLessonsCache\<close>: a map from the week identifier to the cached lessons and their
  expiry. The clock is a number of nanoseconds; \<open>time.Now()\<close> is an input of each
  operation. \<open>Get\<close> returns the lessons, if any, and the map, from which an expired entry
  has been deleted.
\<close>

type_synonym 't cacheData = "string \<rightharpoonup> ('t Lesson list \<times> nat)"

definition GroupLessonsCache_Get ::
  "'t cacheData \<Rightarrow> string \<Rightarrow> nat \<Rightarrow> 't Lesson list option \<times> 't cacheData" where
  "GroupLessonsCache_Get data wk now =
     (case data wk of
        None \<Rightarrow> (None, data)
      | Some (cached, expiry) \<Rightarrow>
          if now > expiry then (None, data(wk := None)) else (Some cached, data))"

definition GroupLessonsCache_Set ::
  "'t cacheData \<Rightarrow> string \<Rightarrow> 't Lesson list \<Rightarrow> nat \<Rightarrow> 't cacheData" where
  "GroupLessonsCache_Set data wk cached now = data(wk \<mapsto> (cached, now + 30 * 60000000000))"

text \<open>
  \<open>LessonsRepositoryImpl\<close>; the fields carry \<open>r_\<close> in front, the receiver's name in the
  source.
\<close>

record 't LessonsRepositoryImpl =
  r_departments :: "string list"
  r_groups :: "string list"
  r_weekStart :: string
  r_lessons :: "'t Lesson list"
  r_cache :: "'t cacheData"

definition NewLessonsRepository ::
  "string list \<Rightarrow> string list \<Rightarrow> string \<Rightarrow> 't LessonsRepositoryImpl" where
  "NewLessonsRepository departments groups wk =
     \<lparr>r_departments = departments, r_groups = groups, r_weekStart = wk, r_lessons = [],
      r_cache = Map.empty\<rparr>"

text \<open>
  The fetches of \<open>GetLessons\<close>, one task for each pair of a department and a group. Each
  task appends the lessons of a successful \<open>Parse\<close> under a lock and logs a failure with
  the group; all tasks are awaited. The model runs them in the order of the two loops,
  which is one of the orders the appends and the log lines can take. \<open>groupParse dep grp\<close>
  is the outcome of \<open>NewGroupScheduleParser(dep, grp, r.weekStart).Parse()\<close>. The lines
  that \<open>log.Printf\<close> writes are a list of entries.
\<close>

datatype logEntry = IndividualScheduleError parseError | GroupScheduleError string fetchError

fun fetchAll ::
  "(string \<Rightarrow> string \<Rightarrow> fetchError + 't Lesson list) \<Rightarrow> (string \<times> string) list \<Rightarrow>
   't Lesson list" where
  "fetchAll groupParse [] = []"
| "fetchAll groupParse ((dep, grp) # pairs) =
     (case groupParse dep grp of
        Inr fetched \<Rightarrow> fetched @ fetchAll groupParse pairs
      | Inl err \<Rightarrow> fetchAll groupParse pairs)"

fun fetchLog ::
  "(string \<Rightarrow> string \<Rightarrow> fetchError + 't Lesson list) \<Rightarrow> (string \<times> string) list \<Rightarrow>
   logEntry list" where
  "fetchLog groupParse [] = []"
| "fetchLog groupParse ((dep, grp) # pairs) =
     (case groupParse dep grp of
        Inr fetched \<Rightarrow> fetchLog groupParse pairs
      | Inl err \<Rightarrow> GroupScheduleError grp err # fetchLog groupParse pairs)"

text \<open>
  \<open>GetLessons\<close>, from the file system of the tabular parser, the outcomes of the remote
  fetches and the clock at the two cache operations. It returns the lessons with the
  error (\<open>None\<close> is \<open>nil\<close>), the repository after the call, and the lines logged.
\<close>

definition GetLessons ::
  "'t LessonsRepositoryImpl \<Rightarrow> 't TimePkg \<Rightarrow> 't FileSystem \<Rightarrow>
   (string \<Rightarrow> string \<Rightarrow> fetchError + 't Lesson list) \<Rightarrow> nat \<Rightarrow> nat \<Rightarrow>
   ('t Lesson list \<times> string option) \<times> 't LessonsRepositoryImpl \<times> logEntry list" where
  "GetLessons r tp fs groupParse nowGet nowSet =
     (let (r1, logged) =
            (case IndividualScheduleParser_Parse tp fs of
               Inr individualLessons \<Rightarrow> (r\<lparr>r_lessons := r_lessons r @ individualLessons\<rparr>, [])
             | Inl err \<Rightarrow> (r, [IndividualScheduleError err]))
      in case GroupLessonsCache_Get (r_cache r1) (r_weekStart r1) nowGet of
           (Some cachedLessons, data) \<Rightarrow>
             (let r2 = r1\<lparr>r_lessons := r_lessons r1 @ cachedLessons, r_cache := data\<rparr>
              in ((r_lessons r2, None), r2, logged))
         | (None, data) \<Rightarrow>
             (let pairs = List.product (r_departments r1) (r_groups r1);
                  groupLessons = fetchAll groupParse pairs;
                  r2 = r1\<lparr>r_lessons := r_lessons r1 @ groupLessons,
                          r_cache := GroupLessonsCache_Set data (r_weekStart r1)
                                       groupLessons nowSet\<rparr>
              in ((r_lessons r2, None), r2, logged @ fetchLog groupParse pairs)))"

text \<open>
  \<open>ProcessSchedule\<close>, from the students that \<open>LoadStudents\<close> gave (its error is dropped, and
  so is the error of \<open>GetLessons\<close>). The departments and groups are the keys of two sets,
  listed in some order. Its result is the pair that the function returns.
\<close>

record 't ValidatingResult =
  Violations :: "'t Violation list"
  Lessons :: "'t Lesson list"

definition ProcessSchedule ::
  "'t TimePkg \<Rightarrow> string \<Rightarrow> Student list \<Rightarrow> 't FileSystem \<Rightarrow>
   (string \<Rightarrow> string \<Rightarrow> fetchError + 't Lesson list) \<Rightarrow> nat \<Rightarrow> nat \<Rightarrow>
   't ValidatingResult \<times> string option" where
  "ProcessSchedule tp wk students fs groupParse nowGet nowSet =
     (let departments = remdups (map Department students);
          groups = remdups (map Group students);
          lessons_repository = NewLessonsRepository departments groups wk;
          lessons = fst (fst (GetLessons lessons_repository tp fs groupParse nowGet nowSet));
          violations = ValidateSchedule tp students lessons
      in (\<lparr>Violations = violations, Lessons = lessons\<rparr>, None))"

section \<open>Concrete inputs\<close>

text \<open>
  A time package for concrete runs: a time value is the text it was parsed from, and
  formatting gives that text back. It is adequate wherever a value is formatted with the
  layout it was parsed with, which is the only use the pipeline makes of dates.
\<close>

definition exampleTime :: "string TimePkg" where
  "exampleTime =
     \<lparr>Parse = (\<lambda>layout text. text), Format = (\<lambda>t layout. t), ZeroTime = ''0001-01-01''\<rparr>"

text \<open>A student of group \<open>MD-21-o\<close> and a full-period group lesson of two hours for that group.\<close>

definition exampleStudent :: "int \<Rightarrow> Student" where
  "exampleStudent year =
     \<lparr>Name = ''Ivanov I.I.'', Group = ''MD-21-o'', Department = ''Music'', Year = year\<rparr>"

definition groupLesson :: "string \<Rightarrow> int \<Rightarrow> string Lesson" where
  "groupLesson day number =
     \<lparr>Time = NewLessonTime day number 0 2 day day,
      Discipline = ''Harmony'', Teacher = ''Petrov A.A.'', Cabinet = ''K3-101'',
      LGroup = ''MD-21-o'', LStudent = []\<rparr>"


text \<open>A half-period lesson of one hour given to one student.\<close>

definition individualLesson :: "string \<Rightarrow> string \<Rightarrow> int \<Rightarrow> int \<Rightarrow> string Lesson" where
  "individualLesson student day number half =
     \<lparr>Time = NewLessonTime day number half 1 day day,
      Discipline = ''Vocal'', Teacher = ''Sidorov B.B.'', Cabinet = ''K3-12'',
      LGroup = [], LStudent = student\<rparr>"

text \<open>
  Two raw records of the portal for the same date and period, given by two teachers to
  two subgroups; the teachers' names are the UTF-8 bytes of the Cyrillic names of the
  specification's scenario.
\<close>

definition petrov :: string where
  "petrov =
     [CHR 0xD0, CHR 0x9F, CHR 0xD0, CHR 0xB5, CHR 0xD1, CHR 0x82, CHR 0xD1, CHR 0x80,
      CHR 0xD0, CHR 0xBE, CHR 0xD0, CHR 0xB2, CHR 0x20, CHR 0xD0, CHR 0x90, CHR 0x2E,
      CHR 0xD0, CHR 0x90, CHR 0x2E]"

definition sidorov :: string where
  "sidorov =
     [CHR 0xD0, CHR 0xA1, CHR 0xD0, CHR 0xB8, CHR 0xD0, CHR 0xB4, CHR 0xD0, CHR 0xBE,
      CHR 0xD1, CHR 0x80, CHR 0xD0, CHR 0xBE, CHR 0xD0, CHR 0xB2, CHR 0x20, CHR 0xD0,
      CHR 0x91, CHR 0x2E, CHR 0xD0, CHR 0x91, CHR 0x2E]"

definition rawRecord :: "string \<Rightarrow> string \<Rightarrow> string \<Rightarrow> LessonData" where
  "rawRecord subgroup teacher room =
     \<lparr>WeekDayNum = 1, WeekDayDate = ''2025-03-10'', WeekDateStart = ''2025-03-10'',
      WeekDateEnd = ''2025-03-16'', LessonNum = 2, LessonTimeStart = ''10:10'',
      LessonTimeEnd = ''11:40'', DiscName = ''Piano'', DiscType = ''pr'',
      DiscSubgroup = subgroup, TeacherName = teacher, AuditName = room,
      GroupName = ''MD-21-o''\<rparr>"

definition examplePortal :: "LessonData list \<Rightarrow> Portal" where
  "examplePortal records =
     \<lparr>fetchDepartments = Inr [''Music'' \<mapsto> ''7''],
      fetchGroups = (\<lambda>departmentID. if departmentID = ''7'' then Inr [''MD-21-o'' \<mapsto> ''42'']
                                     else Inl ''no such department''),
      fetchLessons = (\<lambda>groupID. if groupID = ''42'' then Inr records
                                 else Inl ''no such group'')\<rparr>"

definition exampleParser :: GroupScheduleParser where
  "exampleParser = \<lparr>gsp_departmentName = ''Music'', gsp_groupName = ''MD-21-o'', gsp_weekStart = []\<rparr>"

text \<open>
  A strings package for concrete runs on text without white space: such text is its own
  single field and is left alone by trimming.
\<close>

definition exampleStrings :: StringsPkg where
  "exampleStrings = \<lparr>Fields = (\<lambda>s. [s]), TrimSpace = (\<lambda>s. s)\<rparr>"

text \<open>
  Two half-period records of the same date, period and half whose discipline, room and
  student differ, with a vertical bar inside the discipline of one and the student name
  of the other. The rooms have the form \<open>extractCabinet\<close> gives them: the Cyrillic letter
  and \<open>3-\<close> before the number.
\<close>

definition roomK3 :: "string \<Rightarrow> string" where
  "roomK3 number = [CHR 0xD0, CHR 0x9A] @ ''3-'' @ number"

definition barLesson1 :: "string Lesson" where
  "barLesson1 =
     \<lparr>Time = NewLessonTime ''2025-03-10'' 1 1 1 ''08:30'' ''10:00'',
      Discipline = ''A'', Teacher = ''Petrov A.A.'', Cabinet = roomK3 ''11'',
      LGroup = [], LStudent = ''B|'' @ roomK3 ''22'' @ ''||C''\<rparr>"

definition barLesson2 :: "string Lesson" where
  "barLesson2 =
     \<lparr>Time = NewLessonTime ''2025-03-10'' 1 1 1 ''08:30'' ''10:00'',
      Discipline = ''A|'' @ roomK3 ''11'' @ ''||B'', Teacher = ''Sidorov B.B.'',
      Cabinet = roomK3 ''22'', LGroup = [], LStudent = ''C''\<rparr>"

text \<open>
  Two file systems for concrete runs. In both the working directory holds a text file
  and the file \<open>a.xls\<close>, which cannot be opened. In the first there is no other file; in
  the second the file \<open>B.XLS\<close> has a sheet with one half-period record.
\<close>

definition brokenDisk :: "string FileSystem" where
  "brokenDisk =
     \<lparr>Getwd = Inr ''/data'',
      Walk = (\<lambda>dataDir. [Visit ''/data'' ''data'' True,
                          Visit ''/data/notes.txt'' ''notes.txt'' False,
                          Visit ''/data/a.xls'' ''a.xls'' False]),
      ToLower = (\<lambda>s. s),
      xlsOpen = (\<lambda>filePath. OpenFailed ''not an xls file'')\<rparr>"

definition mixedDisk :: "string FileSystem" where
  "mixedDisk =
     \<lparr>Getwd = Inr ''/data'',
      Walk = (\<lambda>dataDir. [Visit ''/data'' ''data'' True,
                          Visit ''/data/notes.txt'' ''notes.txt'' False,
                          Visit ''/data/a.xls'' ''a.xls'' False,
                          Visit ''/data/B.XLS'' ''B.XLS'' False]),
      ToLower = (\<lambda>s. if s = ''B.XLS'' then ''b.xls'' else s),
      xlsOpen = (\<lambda>filePath.
         if filePath = ''/data/B.XLS''
         then Sheet [individualLesson ''Ivanov I.I.'' ''2025-03-10'' 3 1]
         else OpenFailed ''not an xls file'')\<rparr>"

section \<open>Grouping: what the built map holds\<close>

text \<open>
  The map built by \<open>groupLoop\<close> has one entry for each key that occurs, and the entry of a
  key holds the elements with that key, in their order.
\<close>

lemma appendAt_keys:
  "map fst (appendAt k v m) = (if k \<in> fst ` set m then map fst m else map fst m @ [k])"
  by (induction m) force+

lemma appendAt_map_of:
  "map_of (appendAt k v m) =
     (map_of m)(k \<mapsto> (case map_of m k of None \<Rightarrow> [] | Some vs \<Rightarrow> vs) @ [v])"
  by (induction m) (auto simp: fun_eq_iff)

lemma appendAt_distinct:
  "distinct (map fst m) \<Longrightarrow> distinct (map fst (appendAt k v m))"
  by (simp add: appendAt_keys)

lemma groupLoop_distinct:
  "distinct (map fst m) \<Longrightarrow> distinct (map fst (groupLoop key m xs))"
  by (induction xs arbitrary: m) (simp_all add: appendAt_distinct)

lemma groupLoop_map_of:
  "map_of (groupLoop key m xs) k =
     (if k \<in> key ` set xs \<or> k \<in> fst ` set m
      then Some ((case map_of m k of None \<Rightarrow> [] | Some vs \<Rightarrow> vs) @ filter (\<lambda>x. key x = k) xs)
      else None)"
proof (induction xs arbitrary: m)
  case Nil
  show ?case by (auto simp: map_of_eq_None_iff split: option.splits) 
next
  case (Cons x xs)
  have keys: "fst ` set (appendAt (key x) x m) = insert (key x) (fst ` set m)"
    using appendAt_keys [of "key x" x m] 
    by (metis (no_types, lifting) insert_absorb list.set_map set_append list.simps(15) Un_insert_right
        sup_bot.right_neutral empty_set)
  show ?case
    by (auto simp: Cons.IH keys appendAt_map_of split: option.splits)
qed

lemma groupLoop_entries:
  "(k, vs) \<in> set (groupLoop key [] xs) \<longleftrightarrow> k \<in> key ` set xs \<and> vs = filter (\<lambda>x. key x = k) xs"
proof -
  have d: "distinct (map fst (groupLoop key [] xs))"
    by (rule groupLoop_distinct) simp
  have "(k, vs) \<in> set (groupLoop key [] xs) \<longleftrightarrow> map_of (groupLoop key [] xs) k = Some vs"
    using d by simp
  then show ?thesis
    by (auto simp: groupLoop_map_of)
qed


lemma groupLoop_keys: "fst ` set (groupLoop key [] xs) = key ` set xs"
proof (rule set_eqI)
  fix k
  have "k \<in> fst ` set (groupLoop key [] xs) \<longleftrightarrow> (\<exists>vs. (k, vs) \<in> set (groupLoop key [] xs))"
    by force
  also have "\<dots> \<longleftrightarrow> k \<in> key ` set xs"
    unfolding groupLoop_entries by blast
  finally show "k \<in> fst ` set (groupLoop key [] xs) \<longleftrightarrow> k \<in> key ` set xs" .
qed

lemma groupLoop_length: "length (groupLoop key [] xs) = card (key ` set xs)"
proof -
  have "distinct (map fst (groupLoop key [] xs))"
    by (rule groupLoop_distinct) simp
  then have "card (set (map fst (groupLoop key [] xs))) = length (map fst (groupLoop key [] xs))"
    by (rule distinct_card)
  then show ?thesis by (simp add: groupLoop_keys)
qed

section \<open>The validator: auxiliary facts\<close>

text \<open>
  The sum of the load rule is the sum of the hours reduced to a machine integer; it is
  the sum itself when that is a machine integer.
\<close>

lemma wrapInt_id: "- maxInt - 1 \<le> x \<Longrightarrow> x \<le> maxInt \<Longrightarrow> wrapInt x = x"
  by (simp add: wrapInt_def maxInt_def)

lemma wrapInt_add: "wrapInt (wrapInt x + y) = wrapInt (x + y)"
proof -
  have "((x + 9223372036854775808) mod 18446744073709551616 + y) mod 18446744073709551616 =
        (x + 9223372036854775808 + y) mod 18446744073709551616"
    by (rule mod_add_left_eq)
  then show ?thesis by (simp add: wrapInt_def algebra_simps)
qed

lemma calculateLoad_loop_wrap:
  "calculateLoad_loop (wrapInt acc) ls =
     wrapInt (acc + sum_list (map (\<lambda>l. Hours (Time l)) ls))"
proof (induction ls arbitrary: acc)
  case Nil
  show ?case by simp
next
  case (Cons l ls)
  have "calculateLoad_loop (wrapInt acc) (l # ls) =
        calculateLoad_loop (wrapInt (acc + Hours (Time l))) ls"
    by (simp add: wrapInt_add)
  also have "\<dots> = wrapInt (acc + Hours (Time l) + sum_list (map (\<lambda>l. Hours (Time l)) ls))"
    by (rule Cons.IH)
  finally show ?case by (simp add: add.assoc)
qed

lemma calculateLoad_wrap:
  "calculateLoad ls = wrapInt (sum_list (map (\<lambda>l. Hours (Time l)) ls))"
proof -
  have "wrapInt 0 = 0" by (simp add: wrapInt_def)
  with calculateLoad_loop_wrap [of 0 ls] show ?thesis by (simp add: calculateLoad_def)
qed

lemma calculateLoad_sum:
  assumes "- maxInt - 1 \<le> sum_list (map (\<lambda>l. Hours (Time l)) ls)"
    and "sum_list (map (\<lambda>l. Hours (Time l)) ls) \<le> maxInt"
  shows "calculateLoad ls = sum_list (map (\<lambda>l. Hours (Time l)) ls)"
  unfolding calculateLoad_wrap using assms by (rule wrapInt_id)

lemma collect_filter:
  "collectStudentSchedule lessons student =
     filter (\<lambda>lesson. (LStudent lesson \<noteq> [] \<and> LStudent lesson = Name student) \<or>
                      (LStudent lesson = [] \<and> LGroup lesson = Group student)) lessons"
  by (induction lessons) auto

lemma kinds_differ: "loadExceeded \<noteq> gapsExceeded"
  by (simp add: loadExceeded_def gapsExceeded_def)

lemma in_validateStudent:
  "v \<in> set (validateStudent tp lessons s) \<longleftrightarrow>
     (\<exists>d \<in> (\<lambda>l. DateString tp (Time l)) ` set (collectStudentSchedule lessons s).
        v \<in> set (validateDay s [l \<leftarrow> collectStudentSchedule lessons s. DateString tp (Time l) = d]))"
proof -
  let ?key = "\<lambda>l. DateString tp (Time l)"
  let ?sched = "collectStudentSchedule lessons s"
  have "v \<in> set (validateStudent tp lessons s) \<longleftrightarrow>
        (\<exists>d vs. (d, vs) \<in> set (groupLoop ?key [] ?sched) \<and> v \<in> set (validateDay s vs))"
    unfolding validateStudent_def groupByDate_def by auto
  also have "\<dots> \<longleftrightarrow> (\<exists>d \<in> ?key ` set ?sched. v \<in> set (validateDay s (filter (\<lambda>l. ?key l = d) ?sched)))"
    unfolding groupLoop_entries by blast
  finally show ?thesis .
qed

lemma in_ValidateSchedule:
  "v \<in> set (ValidateSchedule tp students lessons) \<longleftrightarrow>
     (\<exists>s \<in> set students. v \<in> set (validateStudent tp lessons s))"
  by (auto simp: ValidateSchedule_def)

lemma validateDay_Nil: "validateDay s [] = []"
  by (simp add: validateDay_def)

lemma validateDay_load_iff:
  "day \<noteq> [] \<Longrightarrow>
   (v \<in> set (validateDay s day) \<and> Type v = loadExceeded) \<longleftrightarrow>
   (10 < calculateLoad day \<and>
    v = NewViolation (Name s) (Group s) (Year s) (Date (Time (hd day))) loadExceeded
          (calculateLoad day))"
  using kinds_differ
  by (cases day) (auto simp: validateDay_def Let_def NewViolation_def)

lemma validateDay_gaps_iff:
  "day \<noteq> [] \<Longrightarrow>
   (v \<in> set (validateDay s day) \<and> Type v = gapsExceeded) \<longleftrightarrow>
   ((if Year s = 1 then 2 else 4) < calculateGaps day \<and>
    v = NewViolation (Name s) (Group s) (Year s) (Date (Time (hd day))) gapsExceeded
          (calculateGaps day))"
  using kinds_differ
  by (cases day) (auto simp: validateDay_def Let_def NewViolation_def)

lemma validateDay_origin:
  "v \<in> set (validateDay s day) \<Longrightarrow>
   day \<noteq> [] \<and> StudentName v = Name s \<and> VGroup v = Group s \<and> VYear v = Year s \<and>
   VDate v = Date (Time (hd day))"
  by (cases day) (auto simp: validateDay_def Let_def NewViolation_def split: if_splits)

lemma collect_cong:
  "Name s' = Name s \<Longrightarrow> Group s' = Group s \<Longrightarrow>
   collectStudentSchedule lessons s' = collectStudentSchedule lessons s"
  by (simp add: collect_filter)

lemma day_of_violation:
  assumes "v \<in> set (validateDay s [l \<leftarrow> sched. DateString tp (Time l) = d'])"
  shows "Format tp (VDate v) ''2006-01-02'' = d'"
proof -
  let ?day = "[l \<leftarrow> sched. DateString tp (Time l) = d']"
  from validateDay_origin [OF assms] have ne: "?day \<noteq> []" and dt: "VDate v = Date (Time (hd ?day))"
    by simp_all
  from ne have "hd ?day \<in> set ?day" by (rule hd_in_set)
  then have "DateString tp (Time (hd ?day)) = d'" by simp
  with dt show ?thesis by (simp add: DateString_def)
qed

section \<open>The gap loop computes the specified gap count\<close>

lemma finite_loopSlots: "finite (\<Union> (set (map loopSlots ls)))"
  by (auto simp: loopSlots_def)

lemma calculateGaps_loop_inv:
  "calculateGaps_loop (mn, mx, occ) ls = (mn', mx', occ') \<Longrightarrow>
   occ' = occ \<union> \<Union> (set (map loopSlots ls)) \<and>
   mn' \<in> insert mn (\<Union> (set (map loopSlots ls))) \<and>
   (\<forall>x \<in> insert mn (\<Union> (set (map loopSlots ls))). mn' \<le> x) \<and>
   mx' \<in> insert mx (\<Union> (set (map loopSlots ls))) \<and>
   (\<forall>x \<in> insert mx (\<Union> (set (map loopSlots ls))). x \<le> mx')"
proof (induction ls arbitrary: mn mx occ)
  case Nil
  then show ?case by simp
next
  case (Cons l ls)
  let ?S = "\<Union> (set (map loopSlots ls))"
  show ?case
  proof (cases "PairHalf (Time l) = 0")
    case True
    define s1 where "s1 = (Number (Time l) - 1) * 2"
    define mn1 where "mn1 = (if s1 < mn then s1 else mn)"
    define mx1 where "mx1 = (if s1 + 1 > mx then s1 + 1 else mx)"
    from Cons.prems True
    have "calculateGaps_loop (mn1, mx1, insert (s1 + 1) (insert s1 occ)) ls = (mn', mx', occ')"
      unfolding mn1_def mx1_def s1_def by (simp only: calculateGaps_loop.simps Let_def if_True simp_thms)
    from Cons.IH [OF this]
    have occ: "occ' = insert (s1 + 1) (insert s1 occ) \<union> ?S"
      and mn: "mn' \<in> insert mn1 ?S" "\<forall>x \<in> insert mn1 ?S. mn' \<le> x"
      and mx: "mx' \<in> insert mx1 ?S" "\<forall>x \<in> insert mx1 ?S. x \<le> mx'"
      by blast+
    have sl: "loopSlots l = {s1, s1 + 1}"
      using True by (simp add: loopSlots_def s1_def)
    have "occ' = occ \<union> \<Union> (set (map loopSlots (l # ls)))"
      using occ sl by auto
    moreover have "mn' \<in> insert mn (\<Union> (set (map loopSlots (l # ls))))"
      using mn(1) sl by (auto simp: mn1_def split: if_splits)
    moreover have "\<forall>x \<in> insert mn (\<Union> (set (map loopSlots (l # ls)))). mn' \<le> x"
      using mn(2) sl by (auto simp: mn1_def split: if_splits)
    moreover have "mx' \<in> insert mx (\<Union> (set (map loopSlots (l # ls))))"
      using mx(1) sl by (auto simp: mx1_def split: if_splits)
    moreover have "\<forall>x \<in> insert mx (\<Union> (set (map loopSlots (l # ls)))). x \<le> mx'"
      using mx(2) sl by (auto simp: mx1_def split: if_splits)
    ultimately show ?thesis by blast
  next
    case False
    define s where "s = (Number (Time l) - 1) * 2 + (PairHalf (Time l) - 1)"
    define mn1 where "mn1 = (if s < mn then s else mn)"
    define mx1 where "mx1 = (if s > mx then s else mx)"
    from Cons.prems False
    have "calculateGaps_loop (mn1, mx1, insert s occ) ls = (mn', mx', occ')"
      unfolding mn1_def mx1_def s_def by (simp only: calculateGaps_loop.simps Let_def if_False simp_thms)
    from Cons.IH [OF this]
    have occ: "occ' = insert s occ \<union> ?S"
      and mn: "mn' \<in> insert mn1 ?S" "\<forall>x \<in> insert mn1 ?S. mn' \<le> x"
      and mx: "mx' \<in> insert mx1 ?S" "\<forall>x \<in> insert mx1 ?S. x \<le> mx'"
      by blast+
    have sl: "loopSlots l = {s}"
      using False by (simp add: loopSlots_def s_def)
    have "occ' = occ \<union> \<Union> (set (map loopSlots (l # ls)))"
      using occ sl by auto
    moreover have "mn' \<in> insert mn (\<Union> (set (map loopSlots (l # ls))))"
      using mn(1) sl by (auto simp: mn1_def split: if_splits)
    moreover have "\<forall>x \<in> insert mn (\<Union> (set (map loopSlots (l # ls)))). mn' \<le> x"
      using mn(2) sl by (auto simp: mn1_def split: if_splits)
    moreover have "mx' \<in> insert mx (\<Union> (set (map loopSlots (l # ls))))"
      using mx(1) sl by (auto simp: mx1_def split: if_splits)
    moreover have "\<forall>x \<in> insert mx (\<Union> (set (map loopSlots (l # ls)))). x \<le> mx'"
      using mx(2) sl by (auto simp: mx1_def split: if_splits)
    ultimately show ?thesis by blast
  qed
qed

lemma calculateGaps_spec:
  assumes ne: "dayLessons \<noteq> []"
    and rng: "\<forall>l \<in> set dayLessons. 1 \<le> Number (Time l) \<and> Number (Time l) \<le> 4611686018427387904 \<and>
                (PairHalf (Time l) = 0 \<or> PairHalf (Time l) = 1 \<or> PairHalf (Time l) = 2)"
  shows "calculateGaps dayLessons = spec_gapCount dayLessons"
proof -
  let ?S = "\<Union> (set (map loopSlots dayLessons))"
  have same: "map spec_halfSlots dayLessons = map loopSlots dayLessons"
    using rng by (auto simp: spec_halfSlots_def loopSlots_def)
  have fin: "finite ?S" by (rule finite_loopSlots)
  from ne obtain l0 where l0: "l0 \<in> set dayLessons" by (cases dayLessons) auto
  then have "loopSlots l0 \<subseteq> ?S" by auto
  moreover have "loopSlots l0 \<noteq> {}" by (simp add: loopSlots_def)
  ultimately have nonempty: "?S \<noteq> {}" by blast
  have bounds: "0 \<le> x \<and> x \<le> maxInt" if "x \<in> ?S" for x
  proof -
    from that obtain l where "l \<in> set dayLessons" and "x \<in> loopSlots l" by auto
    with rng show ?thesis
      by (fastforce simp: loopSlots_def maxInt_def split: if_splits)
  qed
  obtain mn mx occ where loop: "calculateGaps_loop (maxInt, - 1, {}) dayLessons = (mn, mx, occ)"
    by (cases "calculateGaps_loop (maxInt, - 1, {}) dayLessons") auto
  from calculateGaps_loop_inv [OF loop]
  have occ: "occ = ?S"
    and mn: "mn \<in> insert maxInt ?S" "\<forall>x \<in> insert maxInt ?S. mn \<le> x"
    and mx: "mx \<in> insert (- 1) ?S" "\<forall>x \<in> insert (- 1) ?S. x \<le> mx"
    by blast+
  obtain y where y: "y \<in> ?S" using nonempty by blast
  have "mn \<in> ?S"
  proof (rule ccontr)
    assume "mn \<notin> ?S"
    with mn(1) have "mn = maxInt" by simp
    with mn(2) have "\<forall>x \<in> ?S. x = maxInt" using bounds by force
    with y have "y = maxInt" by blast
    with \<open>mn \<notin> ?S\<close> \<open>mn = maxInt\<close> y show False by simp
  qed
  with mn(2) fin have Min: "Min ?S = mn" by (intro Min_eqI) auto
  have "mx \<in> ?S"
  proof (rule ccontr)
    assume "mx \<notin> ?S"
    with mx(1) have "mx = - 1" by simp
    with mx(2) y have "y \<le> - 1" by blast
    with bounds [OF y] show False by simp
  qed
  with mx(2) fin have Max: "Max ?S = mx" by (intro Max_eqI) auto
  show ?thesis
    using ne loop occ Min Max by (simp add: calculateGaps_def spec_gapCount_def same Let_def)
qed

section \<open>Facts about the concrete inputs\<close>

lemma groupLesson_day:
  "[l \<leftarrow> collectStudentSchedule (map (groupLesson day) ns) (exampleStudent y).
      DateString exampleTime (Time l) = day] = map (groupLesson day) ns"
  by (induction ns)
     (simp_all add: groupLesson_def exampleStudent_def DateString_def exampleTime_def
        NewLessonTime_def)

section \<open>The two rules on concrete days\<close>

lemma groupLesson_simps:
  "LStudent (groupLesson day n) = []" "LGroup (groupLesson day n) = ''MD-21-o''"
  "Hours (Time (groupLesson day n)) = 2" "PairHalf (Time (groupLesson day n)) = 0"
  "Number (Time (groupLesson day n)) = n" "Date (Time (groupLesson day n)) = day"
  by (simp_all add: groupLesson_def NewLessonTime_def)

text \<open>
  The boundaries of the two rules on one day: five lessons of two hours make ten hours and
  no violation; two gaps for a student of year 1 and four gaps for a student of year 2
  make no violation either.
\<close>

lemma load_boundary_example:
  "calculateLoad (map (groupLesson ''2025-03-10'') [1, 2, 3, 4, 5]) = 10 \<and>
   validateDay (exampleStudent 2) (map (groupLesson ''2025-03-10'') [1, 2, 3, 4, 5]) = []"
proof -
  have load: "calculateLoad (map (groupLesson ''2025-03-10'') [1, 2, 3, 4, 5]) = 10"
    by (simp add: calculateLoad_def groupLesson_simps wrapInt_def)
  have gaps: "calculateGaps (map (groupLesson ''2025-03-10'') [1, 2, 3, 4, 5]) = 0"
    by (simp add: calculateGaps_def groupLesson_simps maxInt_def)
  have "validateDay (exampleStudent 2) (map (groupLesson ''2025-03-10'') [1, 2, 3, 4, 5]) = []"
    unfolding validateDay_def load gaps by (simp add: exampleStudent_def)
  with load show ?thesis by simp
qed

lemma gap_boundary_example:
  "calculateGaps (map (groupLesson ''2025-03-10'') [1, 3]) = 2 \<and>
   validateDay (exampleStudent 1) (map (groupLesson ''2025-03-10'') [1, 3]) = [] \<and>
   calculateGaps (map (groupLesson ''2025-03-10'') [1, 4]) = 4 \<and>
   validateDay (exampleStudent 2) (map (groupLesson ''2025-03-10'') [1, 4]) = []"
proof -
  have load: "calculateLoad (map (groupLesson ''2025-03-10'') [a, b]) = 4" for a b
    by (simp add: calculateLoad_def groupLesson_simps wrapInt_def)
  have g2: "calculateGaps (map (groupLesson ''2025-03-10'') [1, 3]) = 2"
    by (simp add: calculateGaps_def groupLesson_simps maxInt_def)
  have g4: "calculateGaps (map (groupLesson ''2025-03-10'') [1, 4]) = 4"
    by (simp add: calculateGaps_def groupLesson_simps maxInt_def)
  have a: "validateDay (exampleStudent 1) (map (groupLesson ''2025-03-10'') [1, 3]) = []"
    unfolding validateDay_def load g2 by (simp add: exampleStudent_def)
  have b: "validateDay (exampleStudent 2) (map (groupLesson ''2025-03-10'') [1, 4]) = []"
    unfolding validateDay_def load g4 by (simp add: exampleStudent_def)
  from g2 g4 a b show ?thesis by simp
qed

text \<open>
  Below the first period the loop of \<open>calculateGaps\<close> does not compute the specified count:
  its maximum starts at \<open>-1\<close>, above the slots \<open>-4\<close> and \<open>-3\<close> of a period \<open>-1\<close>. The gap
  rule below is stated for period numbers from 1 on, as the data model has them.
\<close>

lemma gap_below_first_period:
  "calculateGaps [groupLesson ''2025-03-10'' (- 1)] = 2 \<and>
   spec_gapCount [groupLesson ''2025-03-10'' (- 1)] = 0"
  by (simp add: calculateGaps_def spec_gapCount_def spec_halfSlots_def groupLesson_simps
      maxInt_def)

text \<open>
  Outside the range of the load rule the sum wraps around: with the largest machine
  integer and 1 for the hours of two lessons of a day, \<open>calculateLoad\<close> is the least machine
  integer, and the day has no load violation. The load rule below is stated for hours
  whose sum is a machine integer.
\<close>

lemma calculateLoad_wraps:
  "calculateLoad
     [(groupLesson ''2025-03-10'' 1)
        \<lparr>Time := NewLessonTime ''2025-03-10'' 1 0 maxInt ''08:30'' ''10:00''\<rparr>,
      (groupLesson ''2025-03-10'' 2)
        \<lparr>Time := NewLessonTime ''2025-03-10'' 2 0 1 ''10:10'' ''11:40''\<rparr>] =
     - 9223372036854775808 \<and>
   validateDay (exampleStudent 2)
     [(groupLesson ''2025-03-10'' 1)
        \<lparr>Time := NewLessonTime ''2025-03-10'' 1 0 maxInt ''08:30'' ''10:00''\<rparr>,
      (groupLesson ''2025-03-10'' 2)
        \<lparr>Time := NewLessonTime ''2025-03-10'' 2 0 1 ''10:10'' ''11:40''\<rparr>] = []"
proof -
  let ?day = "[(groupLesson ''2025-03-10'' 1)
        \<lparr>Time := NewLessonTime ''2025-03-10'' 1 0 maxInt ''08:30'' ''10:00''\<rparr>,
      (groupLesson ''2025-03-10'' 2)
        \<lparr>Time := NewLessonTime ''2025-03-10'' 2 0 1 ''10:10'' ''11:40''\<rparr>]"
  have load: "calculateLoad ?day = - 9223372036854775808"
    by (simp add: calculateLoad_def NewLessonTime_def wrapInt_def maxInt_def)
  have gaps: "calculateGaps ?day = 0"
    by (simp add: calculateGaps_def NewLessonTime_def maxInt_def)
  have "validateDay (exampleStudent 2) ?day = []"
    unfolding validateDay_def load gaps by (simp add: exampleStudent_def)
  with load show ?thesis by simp
qed

section \<open>The load rule\<close>

text \<open>
  Claim C1. For a student of the roster and a date (in its string form \<open>d\<close>) such that the
  hours of the student's lessons of that date sum to a machine integer (one between the
  least and the largest value of a Go \<open>int\<close>), the output of \<open>ValidateSchedule\<close> holds a
  load-exceeded violation of that student (name and group) and date if and only if the
  hours of the student's lessons of that date sum to more than 10, and each such
  violation carries that sum as its magnitude. A sum of exactly 10 is not more than 10,
  so it yields no such violation.
\<close>

theorem load_rule:
  assumes "student \<in> set students"
    and "- maxInt - 1 \<le> sum_list (map (\<lambda>l. Hours (Time l))
           [l \<leftarrow> collectStudentSchedule lessons student. DateString tp (Time l) = d])"
    and "sum_list (map (\<lambda>l. Hours (Time l))
           [l \<leftarrow> collectStudentSchedule lessons student. DateString tp (Time l) = d]) \<le> maxInt"
  shows
   "((\<exists>v \<in> set (ValidateSchedule tp students lessons).
        StudentName v = Name student \<and> VGroup v = Group student \<and>
        Type v = loadExceeded \<and> Format tp (VDate v) ''2006-01-02'' = d)
     \<longleftrightarrow> 10 < sum_list (map (\<lambda>l. Hours (Time l))
                 [l \<leftarrow> collectStudentSchedule lessons student. DateString tp (Time l) = d]))
    \<and> (\<forall>v \<in> set (ValidateSchedule tp students lessons).
        StudentName v = Name student \<and> VGroup v = Group student \<and>
        Type v = loadExceeded \<and> Format tp (VDate v) ''2006-01-02'' = d
        \<longrightarrow> VHours v = sum_list (map (\<lambda>l. Hours (Time l))
                 [l \<leftarrow> collectStudentSchedule lessons student. DateString tp (Time l) = d]))"
proof -
  let ?sched = "collectStudentSchedule lessons student"
  let ?day = "[l \<leftarrow> ?sched. DateString tp (Time l) = d]"
  let ?load = "sum_list (map (\<lambda>l. Hours (Time l)) ?day)"
  let ?out = "ValidateSchedule tp students lessons"
  let ?mine = "\<lambda>v. StudentName v = Name student \<and> VGroup v = Group student \<and>
        Type v = loadExceeded \<and> Format tp (VDate v) ''2006-01-02'' = d"
  have exact: "calculateLoad ?day = ?load"
    by (rule calculateLoad_sum [OF assms(2) assms(3)])
  have bwd: "10 < ?load \<and> VHours v = ?load" if v: "v \<in> set ?out" and m: "?mine v" for v
  proof -
    from v obtain s' d' where vd: "v \<in> set (validateDay s' [l \<leftarrow> collectStudentSchedule lessons s'. DateString tp (Time l) = d'])"
      by (auto simp: in_ValidateSchedule in_validateStudent)
    from validateDay_origin [OF vd] m have "Name s' = Name student" "Group s' = Group student"
      by simp_all
    then have sched: "collectStudentSchedule lessons s' = ?sched" by (rule collect_cong)
    from day_of_violation [OF vd] m have "d' = d" by simp
    with vd sched have vd': "v \<in> set (validateDay s' ?day)" by simp
    from validateDay_origin [OF vd'] have ne: "?day \<noteq> []" by simp
    from validateDay_load_iff [OF ne, of v s'] vd' m
    have "10 < calculateLoad ?day" and "v = NewViolation (Name s') (Group s') (Year s')
        (Date (Time (hd ?day))) loadExceeded (calculateLoad ?day)"
      by simp_all
    then show ?thesis by (simp add: exact NewViolation_def)
  qed
  have fwd: "\<exists>v \<in> set ?out. ?mine v" if big: "10 < ?load"
  proof -
    from big have ne: "?day \<noteq> []" by auto
    then have dkey: "d \<in> (\<lambda>l. DateString tp (Time l)) ` set ?sched"
      by (auto simp: filter_empty_conv)
    let ?v = "NewViolation (Name student) (Group student) (Year student)
                (Date (Time (hd ?day))) loadExceeded (calculateLoad ?day)"
    from big validateDay_load_iff [OF ne, of ?v student]
    have vd: "?v \<in> set (validateDay student ?day)" by (simp add: exact)
    with dkey assms(1) have "?v \<in> set ?out"
      by (auto simp: in_ValidateSchedule in_validateStudent)
    moreover have "?mine ?v"
      using day_of_violation [OF vd] by (simp add: NewViolation_def)
    ultimately show ?thesis by blast
  qed
  from bwd fwd show ?thesis by blast
qed

theorem load_rule_witness:
  "exampleStudent 2 \<in> set [exampleStudent 2] \<and>
   sum_list (map (\<lambda>l. Hours (Time l))
      (map (groupLesson ''2025-03-10'') [1, 2, 3, 4, 5, 6])) = 12 \<and>
   - maxInt - 1 \<le> 12 \<and> 12 \<le> maxInt \<and>
   (\<exists>v \<in> set (ValidateSchedule exampleTime [exampleStudent 2]
                 (map (groupLesson ''2025-03-10'') [1, 2, 3, 4, 5, 6])).
      StudentName v = Name (exampleStudent 2) \<and> VGroup v = Group (exampleStudent 2) \<and>
      Type v = loadExceeded \<and> Format exampleTime (VDate v) ''2006-01-02'' = ''2025-03-10'' \<and>
      VHours v = 12)"
proof -
  let ?day = "map (groupLesson ''2025-03-10'') [1, 2, 3, 4, 5, 6]"
  have mem: "exampleStudent 2 \<in> set [exampleStudent 2]" by simp
  have total: "sum_list (map (\<lambda>l. Hours (Time l)) ?day) = 12"
    by (simp add: groupLesson_def NewLessonTime_def)
  have range: "- maxInt - 1 \<le> 12" "12 \<le> maxInt" by (simp_all add: maxInt_def)
  have above: "- maxInt - 1 \<le> sum_list (map (\<lambda>l. Hours (Time l))
      [l \<leftarrow> collectStudentSchedule ?day (exampleStudent 2).
         DateString exampleTime (Time l) = ''2025-03-10''])"
    unfolding groupLesson_day total by (rule range)
  have fits: "sum_list (map (\<lambda>l. Hours (Time l))
      [l \<leftarrow> collectStudentSchedule ?day (exampleStudent 2).
         DateString exampleTime (Time l) = ''2025-03-10'']) \<le> maxInt"
    unfolding groupLesson_day total by (rule range)
  from load_rule [OF mem above fits]
  have "(\<exists>v \<in> set (ValidateSchedule exampleTime [exampleStudent 2] ?day).
      StudentName v = Name (exampleStudent 2) \<and> VGroup v = Group (exampleStudent 2) \<and>
      Type v = loadExceeded \<and> Format exampleTime (VDate v) ''2006-01-02'' = ''2025-03-10'')"
   and "(\<forall>v \<in> set (ValidateSchedule exampleTime [exampleStudent 2] ?day).
      StudentName v = Name (exampleStudent 2) \<and> VGroup v = Group (exampleStudent 2) \<and>
      Type v = loadExceeded \<and> Format exampleTime (VDate v) ''2006-01-02'' = ''2025-03-10''
      \<longrightarrow> VHours v = 12)"
    unfolding groupLesson_day total by simp_all
  then show ?thesis using mem total range by blast
qed

section \<open>The gap rule\<close>

text \<open>
  Claim C2. For a student of the roster and a date on which the student has lessons, all
  with a period number from 1 on (and within the range in which the slot arithmetic stays
  inside a machine integer) and a half-period of 0, 1 or 2: \<open>calculateGaps\<close> returns the
  specified gap count (span of the occupied half-slots less their number), and the output
  of \<open>ValidateSchedule\<close> holds a gaps-exceeded violation of that student and date if and
  only if the gap count is more than 2 for a student of year 1 and more than 4 for any
  other year; each such violation carries the gap count as its magnitude.
\<close>

theorem gap_rule:
  assumes "student \<in> set students"
    and "[l \<leftarrow> collectStudentSchedule lessons student. DateString tp (Time l) = d] \<noteq> []"
    and "\<forall>l \<in> set [l \<leftarrow> collectStudentSchedule lessons student. DateString tp (Time l) = d].
           1 \<le> Number (Time l) \<and> Number (Time l) \<le> 4611686018427387904 \<and>
           (PairHalf (Time l) = 0 \<or> PairHalf (Time l) = 1 \<or> PairHalf (Time l) = 2)"
  shows
   "calculateGaps [l \<leftarrow> collectStudentSchedule lessons student. DateString tp (Time l) = d] =
      spec_gapCount [l \<leftarrow> collectStudentSchedule lessons student. DateString tp (Time l) = d]
    \<and> ((\<exists>v \<in> set (ValidateSchedule tp students lessons).
          StudentName v = Name student \<and> VGroup v = Group student \<and> VYear v = Year student \<and>
          Type v = gapsExceeded \<and> Format tp (VDate v) ''2006-01-02'' = d)
        \<longleftrightarrow> (if Year student = 1 then 2 else 4) <
              spec_gapCount [l \<leftarrow> collectStudentSchedule lessons student. DateString tp (Time l) = d])
    \<and> (\<forall>v \<in> set (ValidateSchedule tp students lessons).
          StudentName v = Name student \<and> VGroup v = Group student \<and> VYear v = Year student \<and>
          Type v = gapsExceeded \<and> Format tp (VDate v) ''2006-01-02'' = d
          \<longrightarrow> VHours v =
              spec_gapCount [l \<leftarrow> collectStudentSchedule lessons student. DateString tp (Time l) = d])"
proof -
  let ?sched = "collectStudentSchedule lessons student"
  let ?day = "[l \<leftarrow> ?sched. DateString tp (Time l) = d]"
  let ?out = "ValidateSchedule tp students lessons"
  let ?limit = "if Year student = 1 then 2 else (4::int)"
  let ?mine = "\<lambda>v. StudentName v = Name student \<and> VGroup v = Group student \<and>
        VYear v = Year student \<and> Type v = gapsExceeded \<and> Format tp (VDate v) ''2006-01-02'' = d"
  have ne: "?day \<noteq> []" by (rule assms(2))
  have gaps: "calculateGaps ?day = spec_gapCount ?day"
    by (rule calculateGaps_spec [OF ne assms(3)])
  have bwd: "?limit < spec_gapCount ?day \<and> VHours v = spec_gapCount ?day"
    if v: "v \<in> set ?out" and m: "?mine v" for v
  proof -
    from v obtain s' d' where vd:
      "v \<in> set (validateDay s' [l \<leftarrow> collectStudentSchedule lessons s'. DateString tp (Time l) = d'])"
      by (auto simp: in_ValidateSchedule in_validateStudent)
    from validateDay_origin [OF vd] m
    have same: "Name s' = Name student" "Group s' = Group student" "Year s' = Year student"
      by simp_all
    from same(1,2) have sched: "collectStudentSchedule lessons s' = ?sched" by (rule collect_cong)
    from day_of_violation [OF vd] m have "d' = d" by simp
    with vd sched have vd': "v \<in> set (validateDay s' ?day)" by simp
    from validateDay_gaps_iff [OF ne, of v s'] vd' m same
    have "?limit < calculateGaps ?day" and "v = NewViolation (Name s') (Group s') (Year s')
        (Date (Time (hd ?day))) gapsExceeded (calculateGaps ?day)"
      by simp_all
    then show ?thesis by (simp add: gaps NewViolation_def)
  qed
  have fwd: "\<exists>v \<in> set ?out. ?mine v" if big: "?limit < spec_gapCount ?day"
  proof -
    from ne have dkey: "d \<in> (\<lambda>l. DateString tp (Time l)) ` set ?sched"
      by (auto simp: filter_empty_conv)
    let ?v = "NewViolation (Name student) (Group student) (Year student)
                (Date (Time (hd ?day))) gapsExceeded (calculateGaps ?day)"
    from big validateDay_gaps_iff [OF ne, of ?v student]
    have vd: "?v \<in> set (validateDay student ?day)" by (simp add: gaps)
    with dkey assms(1) have "?v \<in> set ?out"
      by (auto simp: in_ValidateSchedule in_validateStudent)
    moreover have "?mine ?v"
      using day_of_violation [OF vd] by (simp add: NewViolation_def)
    ultimately show ?thesis by blast
  qed
  from gaps bwd fwd show ?thesis by blast
qed

theorem gap_rule_witness:
  "exampleStudent 1 \<in> set [exampleStudent 1] \<and>
   spec_gapCount (map (groupLesson ''2025-03-10'') [1, 4]) = 4 \<and>
   calculateGaps (map (groupLesson ''2025-03-10'') [1, 4]) = 4 \<and>
   (\<exists>v \<in> set (ValidateSchedule exampleTime [exampleStudent 1]
                 (map (groupLesson ''2025-03-10'') [1, 4])).
      StudentName v = Name (exampleStudent 1) \<and> VGroup v = Group (exampleStudent 1) \<and>
      VYear v = Year (exampleStudent 1) \<and>
      Type v = gapsExceeded \<and> Format exampleTime (VDate v) ''2006-01-02'' = ''2025-03-10'')"
proof -
  let ?day = "map (groupLesson ''2025-03-10'') [1, 4]"
  have mem: "exampleStudent 1 \<in> set [exampleStudent 1]" by simp
  have ne: "[l \<leftarrow> collectStudentSchedule ?day (exampleStudent 1).
      DateString exampleTime (Time l) = ''2025-03-10''] \<noteq> []"
    unfolding groupLesson_day by simp
  have rng: "\<forall>l \<in> set [l \<leftarrow> collectStudentSchedule ?day (exampleStudent 1).
      DateString exampleTime (Time l) = ''2025-03-10''].
         1 \<le> Number (Time l) \<and> Number (Time l) \<le> 4611686018427387904 \<and>
         (PairHalf (Time l) = 0 \<or> PairHalf (Time l) = 1 \<or> PairHalf (Time l) = 2)"
    unfolding groupLesson_day by (simp add: groupLesson_def NewLessonTime_def)
  have count: "spec_gapCount ?day = 4"
    by (simp add: spec_gapCount_def spec_halfSlots_def groupLesson_def NewLessonTime_def)
  have year: "Year (exampleStudent 1) = 1" by (simp add: exampleStudent_def)
  from gap_rule [OF mem ne rng]
  show ?thesis
    unfolding groupLesson_day count year by simp
qed

section \<open>The schedule of a student\<close>

text \<open>
  Claim C3. The schedule collected for a student consists of exactly the lessons whose
  student name is not empty and is the student's name, and the lessons whose student name
  is empty and whose group is the student's group; and the violations of the roster are
  those computed, student by student, from these lessons alone: dropping every other
  lesson from the input changes nothing.
\<close>

theorem schedule_binding:
  "collectStudentSchedule lessons student =
     [lesson \<leftarrow> lessons.
        (LStudent lesson \<noteq> [] \<and> LStudent lesson = Name student) \<or>
        (LStudent lesson = [] \<and> LGroup lesson = Group student)]
   \<and> ValidateSchedule tp students lessons =
       concat (map (\<lambda>s. ValidateSchedule tp [s]
                      [lesson \<leftarrow> lessons.
                         (LStudent lesson \<noteq> [] \<and> LStudent lesson = Name s) \<or>
                         (LStudent lesson = [] \<and> LGroup lesson = Group s)])
                 students)"
proof -
  have idem: "collectStudentSchedule (collectStudentSchedule lessons s) s =
      collectStudentSchedule lessons s" for s
    unfolding collect_filter by simp
  have one: "ValidateSchedule tp [s] (collectStudentSchedule lessons s) =
      validateStudent tp lessons s" for s
    by (simp add: ValidateSchedule_def validateStudent_def idem)
  have "ValidateSchedule tp students lessons =
      concat (map (\<lambda>s. ValidateSchedule tp [s] (collectStudentSchedule lessons s)) students)"
    unfolding one by (simp add: ValidateSchedule_def)
  then show ?thesis
    unfolding collect_filter by simp
qed

theorem schedule_binding_witness:
  "collectStudentSchedule
     [individualLesson ''Ivanov I.I.'' ''2025-03-10'' 1 1,
      individualLesson ''Orlova O.O.'' ''2025-03-10'' 1 2,
      groupLesson ''2025-03-10'' 2,
      (groupLesson ''2025-03-10'' 3)\<lparr>LGroup := ''MD-22-o''\<rparr>]
     (exampleStudent 2) =
   [individualLesson ''Ivanov I.I.'' ''2025-03-10'' 1 1, groupLesson ''2025-03-10'' 2]"
  using schedule_binding
    [of "[individualLesson ''Ivanov I.I.'' ''2025-03-10'' 1 1,
          individualLesson ''Orlova O.O.'' ''2025-03-10'' 1 2,
          groupLesson ''2025-03-10'' 2,
          (groupLesson ''2025-03-10'' 3)\<lparr>LGroup := ''MD-22-o''\<rparr>]"
        "exampleStudent 2" exampleTime "[exampleStudent 2]"]
  by (simp add: individualLesson_def groupLesson_def exampleStudent_def)

section \<open>The remote deduplication: auxiliary facts\<close>

lemma deduplicate_groups_eq:
  "deduplicate_groups m xs =
     groupLoop (\<lambda>d. (WeekDayDate d, LessonNum d)) m
       [d \<leftarrow> xs. DiscName d \<noteq> individualPlaceholder]"
  by (induction xs arbitrary: m) simp_all

lemma createLesson_fields:
  "LStudent (createLesson tp d) = []"
  "PairHalf (Time (createLesson tp d)) = 0"
  "Hours (Time (createLesson tp d)) = 2"
  "Number (Time (createLesson tp d)) = LessonNum d"
  "Date (Time (createLesson tp d)) = Parse tp ''2006-01-02'' (WeekDayDate d)"
  "StartTime (Time (createLesson tp d)) = Parse tp ''15:04'' (LessonTimeStart d)"
  "EndTime (Time (createLesson tp d)) = Parse tp ''15:04'' (LessonTimeEnd d)"
  "Discipline (createLesson tp d) = disciplineOf d"
  "Teacher (createLesson tp d) = TeacherName d"
  "Cabinet (createLesson tp d) = AuditName d"
  "LGroup (createLesson tp d) = GroupName d"
  by (simp_all add: createLesson_def NewLessonTime_def Let_def)

lemma deduplicate_emit_shape:
  "LStudent (deduplicate_emit tp g) = [] \<and> PairHalf (Time (deduplicate_emit tp g)) = 0 \<and>
   Hours (Time (deduplicate_emit tp g)) = 2"
  by (simp add: deduplicate_emit_def createLesson_fields)

lemma deduplicateLessons_shape:
  "l \<in> set (deduplicateLessons tp lessonsData) \<Longrightarrow>
   LStudent l = [] \<and> PairHalf (Time l) = 0 \<and> Hours (Time l) = 2"
  by (auto simp: deduplicateLessons_def deduplicate_emit_shape)

lemma deduplicate_entries:
  "(k, g) \<in> set (deduplicate_groups [] lessonsData) \<longleftrightarrow>
     k \<in> (\<lambda>d. (WeekDayDate d, LessonNum d)) ` {d \<in> set lessonsData. DiscName d \<noteq> individualPlaceholder} \<and>
     g = [d \<leftarrow> lessonsData. DiscName d \<noteq> individualPlaceholder \<and> (WeekDayDate d, LessonNum d) = k]"
  unfolding deduplicate_groups_eq groupLoop_entries by simp

lemma deduplicateLessons_length:
  "length (deduplicateLessons tp lessonsData) =
     card ((\<lambda>d. (WeekDayDate d, LessonNum d)) `
             {d \<in> set lessonsData. DiscName d \<noteq> individualPlaceholder})"
  by (simp add: deduplicateLessons_def deduplicate_groups_eq groupLoop_length)

lemma example_parse:
  "GroupScheduleParser_Parse tp (examplePortal records) exampleParser =
     Inr (deduplicateLessons tp records)"
  by (simp add: GroupScheduleParser_Parse_def examplePortal_def exampleParser_def)

lemma raw_not_individual: "DiscName (rawRecord sg t r) \<noteq> individualPlaceholder"
  by (simp add: rawRecord_def individualPlaceholder_def)

lemma dedup_two:
  "deduplicateLessons tp [rawRecord s1 t1 r1, rawRecord s2 t2 r2] =
     [createLesson tp (mergeLessons [rawRecord s1 t1 r1, rawRecord s2 t2 r2])]"
  using raw_not_individual
  by (simp add: deduplicateLessons_def deduplicate_emit_def) (simp add: rawRecord_def)

lemma merged_teachers:
  "map Teacher (deduplicateLessons tp [rawRecord s1 t1 r1, rawRecord s2 t2 r2]) =
     [t1 @ '' & '' @ t2]"
proof -
  have t: "TeacherName (rawRecord s t r) = t" for s t r
    by (simp add: rawRecord_def)
  show ?thesis
    unfolding dedup_two by (simp add: createLesson_fields mergeLessons_def t)
qed

section \<open>Every remote lesson is a full-period group lesson\<close>

text \<open>
  Claim C10. Every lesson that \<open>deduplicateLessons\<close> produces, and so every lesson of a
  successful \<open>Parse\<close> of the remote group schedule, has an empty student name, half-period
  0 and two hours.
\<close>

theorem remote_lessons_shape:
  "(\<forall>l \<in> set (deduplicateLessons tp lessonsData).
      LStudent l = [] \<and> PairHalf (Time l) = 0 \<and> Hours (Time l) = 2) \<and>
   (\<forall>lessons. GroupScheduleParser_Parse tp portal gsp = Inr lessons \<longrightarrow>
      (\<forall>l \<in> set lessons. LStudent l = [] \<and> PairHalf (Time l) = 0 \<and> Hours (Time l) = 2))"
proof (intro conjI allI impI)
  show "\<forall>l \<in> set (deduplicateLessons tp lessonsData).
      LStudent l = [] \<and> PairHalf (Time l) = 0 \<and> Hours (Time l) = 2"
    using deduplicateLessons_shape by blast
next
  fix lessons
  assume ok: "GroupScheduleParser_Parse tp portal gsp = Inr lessons"
  from ok obtain raw where "lessons = deduplicateLessons tp raw"
    by (auto simp: GroupScheduleParser_Parse_def split: sum.splits option.splits)
  then show "\<forall>l \<in> set lessons. LStudent l = [] \<and> PairHalf (Time l) = 0 \<and> Hours (Time l) = 2"
    using deduplicateLessons_shape by blast
qed

theorem remote_lessons_shape_witness:
  "\<exists>lessons. GroupScheduleParser_Parse exampleTime
       (examplePortal [rawRecord ''1'' petrov ''K3-101'', rawRecord ''2'' sidorov ''K3-102''])
       exampleParser = Inr lessons \<and>
     lessons \<noteq> [] \<and>
     list_all (\<lambda>l. LStudent l = [] \<and> PairHalf (Time l) = 0 \<and> Hours (Time l) = 2) lessons"
proof -
  let ?raw = "[rawRecord ''1'' petrov ''K3-101'', rawRecord ''2'' sidorov ''K3-102'']"
  have p: "GroupScheduleParser_Parse exampleTime (examplePortal ?raw) exampleParser =
      Inr (deduplicateLessons exampleTime ?raw)"
    by (rule example_parse)
  have ne: "deduplicateLessons exampleTime ?raw \<noteq> []"
    by (simp add: dedup_two)
  from remote_lessons_shape [of exampleTime ?raw "examplePortal ?raw" exampleParser]
  have "list_all (\<lambda>l. LStudent l = [] \<and> PairHalf (Time l) = 0 \<and> Hours (Time l) = 2)
      (deduplicateLessons exampleTime ?raw)"
    unfolding list_all_iff by blast
  with p ne show ?thesis by blast
qed

section \<open>A single record without subgroup is emitted as it is\<close>

text \<open>
  Claim C7. When the records of one date and period number that are kept (those not listed
  as individual lessons) are exactly one record \<open>r\<close>, and its subgroup tag is \<open>"0"\<close>, the
  entry of that date and period holds \<open>r\<close> alone, it is emitted through \<open>createLesson\<close>
  without \<open>mergeLessons\<close>, the output holds one lesson for each date and period, and the
  lesson emitted for \<open>r\<close> has half-period 0, two hours, the record's discipline (with the
  type in brackets behind it when there is one), instructor, room and group.
\<close>

theorem singleton_group_direct:
  assumes "[d \<leftarrow> lessonsData. DiscName d \<noteq> individualPlaceholder \<and>
              WeekDayDate d = WeekDayDate r \<and> LessonNum d = LessonNum r] = [r]"
    and "DiscSubgroup r = ''0''"
  shows
   "((WeekDayDate r, LessonNum r), [r]) \<in> set (deduplicate_groups [] lessonsData) \<and>
    deduplicate_emit tp [r] = createLesson tp r \<and>
    createLesson tp r \<in> set (deduplicateLessons tp lessonsData) \<and>
    length (deduplicateLessons tp lessonsData) =
      card ((\<lambda>d. (WeekDayDate d, LessonNum d)) `
              {d \<in> set lessonsData. DiscName d \<noteq> individualPlaceholder}) \<and>
    PairHalf (Time (createLesson tp r)) = 0 \<and>
    Hours (Time (createLesson tp r)) = 2 \<and>
    Discipline (createLesson tp r) =
      (if DiscType r = [] then DiscName r else DiscName r @ '' ['' @ DiscType r @ '']'') \<and>
    Teacher (createLesson tp r) = TeacherName r \<and>
    Cabinet (createLesson tp r) = AuditName r \<and>
    LGroup (createLesson tp r) = GroupName r"
proof -
  let ?k = "(WeekDayDate r, LessonNum r)"
  have "r \<in> set [d \<leftarrow> lessonsData. DiscName d \<noteq> individualPlaceholder \<and>
              WeekDayDate d = WeekDayDate r \<and> LessonNum d = LessonNum r]"
    unfolding assms(1) by simp
  then have r: "r \<in> set lessonsData" "DiscName r \<noteq> individualPlaceholder" by simp_all
  have entry: "(?k, [r]) \<in> set (deduplicate_groups [] lessonsData)"
    unfolding deduplicate_entries using r assms(1) by (simp add: image_iff) blast
  have emit: "deduplicate_emit tp [r] = createLesson tp r"
    using assms(2) by (simp add: deduplicate_emit_def)
  from entry have "deduplicate_emit tp [r] \<in> set (deduplicateLessons tp lessonsData)"
    unfolding deduplicateLessons_def by force
  with emit have mem: "createLesson tp r \<in> set (deduplicateLessons tp lessonsData)" by simp
  show ?thesis
    using entry emit mem
    by (simp add: deduplicateLessons_length createLesson_fields disciplineOf_def)
qed

theorem singleton_group_direct_witness:
  "deduplicateLessons exampleTime [rawRecord ''0'' petrov ''K3-101''] =
     [\<lparr>Time = NewLessonTime ''2025-03-10'' 2 0 2 ''10:10'' ''11:40'',
       Discipline = ''Piano [pr]'', Teacher = petrov, Cabinet = ''K3-101'',
       LGroup = ''MD-21-o'', LStudent = []\<rparr>]"
proof -
  let ?r = "rawRecord ''0'' petrov ''K3-101''"
  have one: "[d \<leftarrow> [?r]. DiscName d \<noteq> individualPlaceholder \<and>
              WeekDayDate d = WeekDayDate ?r \<and> LessonNum d = LessonNum ?r] = [?r]"
    using raw_not_individual by simp
  have tag: "DiscSubgroup ?r = ''0''" by (simp add: rawRecord_def)
  from singleton_group_direct [OF one tag, of exampleTime]
  have mem: "createLesson exampleTime ?r \<in> set (deduplicateLessons exampleTime [?r])"
    and len: "length (deduplicateLessons exampleTime [?r]) =
      card ((\<lambda>d. (WeekDayDate d, LessonNum d)) ` {d \<in> set [?r]. DiscName d \<noteq> individualPlaceholder})"
    by blast+
  have "{d \<in> set [?r]. DiscName d \<noteq> individualPlaceholder} = {?r}"
    using raw_not_individual by auto
  with len have "length (deduplicateLessons exampleTime [?r]) = 1"
    by simp
  with mem have "deduplicateLessons exampleTime [?r] = [createLesson exampleTime ?r]"
    by (cases "deduplicateLessons exampleTime [?r]") auto
  then show ?thesis
    by (simp add: createLesson_def disciplineOf_def rawRecord_def exampleTime_def)
qed

section \<open>Two records of one period are merged in their order of arrival\<close>

text \<open>
  Claim C6, as amended. Two kept records of the same date and period number give exactly
  one lesson; its instructor is the first record's instructor, the separator \<open>" & "\<close>
  (with a space on each side) and the second record's instructor, in the order in which
  the two records arrive and not sorted; its date, period number and start and end time
  are the first record's, its half-period is 0 and its hours are 2.
\<close>

theorem merged_pair:
  assumes "WeekDayDate r1 = WeekDayDate r2" and "LessonNum r1 = LessonNum r2"
    and "DiscName r1 \<noteq> individualPlaceholder" and "DiscName r2 \<noteq> individualPlaceholder"
  shows
   "\<exists>l. deduplicateLessons tp [r1, r2] = [l] \<and>
        Teacher l = TeacherName r1 @ '' & '' @ TeacherName r2 \<and>
        Date (Time l) = Parse tp ''2006-01-02'' (WeekDayDate r1) \<and>
        Number (Time l) = LessonNum r1 \<and>
        StartTime (Time l) = Parse tp ''15:04'' (LessonTimeStart r1) \<and>
        EndTime (Time l) = Parse tp ''15:04'' (LessonTimeEnd r1) \<and>
        PairHalf (Time l) = 0 \<and> Hours (Time l) = 2"
proof -
  have "deduplicateLessons tp [r1, r2] = [createLesson tp (mergeLessons [r1, r2])]"
    using assms by (simp add: deduplicateLessons_def deduplicate_emit_def)
  then show ?thesis
    by (simp add: createLesson_fields mergeLessons_def)
qed

theorem merged_pair_witness:
  "map Teacher (deduplicateLessons exampleTime
       [rawRecord ''1'' petrov ''K3-101'', rawRecord ''2'' sidorov ''K3-102'']) =
     [petrov @ '' & '' @ sidorov] \<and>
   map (\<lambda>l. (Date (Time l), Number (Time l), StartTime (Time l), EndTime (Time l),
             PairHalf (Time l), Hours (Time l)))
     (deduplicateLessons exampleTime
       [rawRecord ''1'' petrov ''K3-101'', rawRecord ''2'' sidorov ''K3-102'']) =
     [(''2025-03-10'', 2, ''10:10'', ''11:40'', 0, 2)]"
proof -
  let ?r1 = "rawRecord ''1'' petrov ''K3-101''" and ?r2 = "rawRecord ''2'' sidorov ''K3-102''"
  have same: "WeekDayDate ?r1 = WeekDayDate ?r2" "LessonNum ?r1 = LessonNum ?r2"
    by (simp_all add: rawRecord_def)
  have fields: "WeekDayDate ?r1 = ''2025-03-10''" "LessonNum ?r1 = 2"
    "LessonTimeStart ?r1 = ''10:10''" "LessonTimeEnd ?r1 = ''11:40''"
    "TeacherName ?r1 = petrov" "TeacherName ?r2 = sidorov"
    by (simp_all add: rawRecord_def)
  from merged_pair [OF same raw_not_individual raw_not_individual, of exampleTime]
  show ?thesis
    unfolding fields by (auto simp: exampleTime_def)
qed

text \<open>
  The claim as the specification states it asks for the two names sorted and joined by
  \<open>"& "\<close>. On the scenario's records the code gives the names in arrival order with
  \<open>" & "\<close> between them, whichever record comes first; neither result is the claimed text.
\<close>

theorem merged_instructors_counterexample:
  "map Teacher (deduplicateLessons exampleTime
       [rawRecord ''1'' petrov ''K3-101'', rawRecord ''2'' sidorov ''K3-102'']) =
     [petrov @ '' & '' @ sidorov] \<and>
   map Teacher (deduplicateLessons exampleTime
       [rawRecord ''2'' sidorov ''K3-102'', rawRecord ''1'' petrov ''K3-101'']) =
     [sidorov @ '' & '' @ petrov] \<and>
   petrov @ '' & '' @ sidorov \<noteq> petrov @ ''& '' @ sidorov \<and>
   sidorov @ '' & '' @ petrov \<noteq> petrov @ ''& '' @ sidorov"
proof -
  have "petrov @ '' & '' @ sidorov \<noteq> petrov @ ''& '' @ sidorov"
    by (simp add: sidorov_def)
  moreover have "sidorov @ '' & '' @ petrov \<noteq> petrov @ ''& '' @ sidorov"
    by (simp add: petrov_def sidorov_def)
  ultimately show ?thesis
    by (simp add: merged_teachers)
qed

section \<open>The records of a row of the table: auxiliary facts\<close>

lemma studentLessons_length:
  "length (studentLessons date n disc teacher cab grp st en index names) = length names"
  by (induction names arbitrary: index) (simp_all add: Let_def)

lemma studentLessons_nth:
  "i < length names \<Longrightarrow>
   studentLessons date n disc teacher cab grp st en index names ! i =
     \<lparr>Time = NewLessonTime date n (index + int i + 1) 1 st en,
      Discipline = disc, Teacher = teacher, Cabinet = cab,
      LGroup = (if names ! i = [] then [] else grp),
      LStudent = names ! i\<rparr>"
proof (induction names arbitrary: index i)
  case Nil
  then show ?case by simp
next
  case (Cons name names)
  show ?case
  proof (cases i)
    case 0
    then show ?thesis by (simp add: Let_def)
  next
    case (Suc j)
    with Cons.prems have "j < length names" by simp
    from Cons.IH [OF this, of "index + 1"] Suc show ?thesis
      by (simp add: Let_def add.assoc add.commute)
  qed
qed

lemma splitSlash_length: "length (splitSlash s) = Suc (length [c \<leftarrow> s. c = CHR ''/''])"
  by (induction s) (auto split: list.splits)

lemma splitSlash_two: "CHR ''/'' \<in> set s \<Longrightarrow> 2 \<le> length (splitSlash s)"
proof -
  assume "CHR ''/'' \<in> set s"
  then have "[c \<leftarrow> s. c = CHR ''/''] \<noteq> []" by (auto simp: filter_empty_conv)
  then show ?thesis
    by (cases "[c \<leftarrow> s. c = CHR ''/'']") (simp_all add: splitSlash_length)
qed

lemma extractStudentNames_two:
  "extractStudentNames sp cell = Inr names \<Longrightarrow> 2 \<le> length names"
  by (auto simp: extractStudentNames_def Let_def splitSlash_two split: if_splits)

lemma example_names: "extractStudentNames exampleStrings ''Ivanov/'' = Inr [''Ivanov'', []]"
  by (simp add: extractStudentNames_def exampleStrings_def)

section \<open>One record for each name of a cell\<close>

text \<open>
  Claim C8, as amended. The names extracted from a student-name cell are at least two (a
  cell without a slash gives its name twice), and each name yields one half-period record
  of one hour whose half-period is the position of the name plus 1. The group of the
  record is blanked when the name is empty, and is the group extracted for the row when
  the name is not empty.
\<close>

theorem student_records:
  assumes "extractStudentNames sp cell = Inr names"
  shows
   "2 \<le> length names \<and>
    length (studentLessons date lessonNumber disciplineName teacherName cabinetNumber groupName
              startTime endTime 0 names) = length names \<and>
    (\<forall>i < length names.
       studentLessons date lessonNumber disciplineName teacherName cabinetNumber groupName
         startTime endTime 0 names ! i =
       \<lparr>Time = NewLessonTime date lessonNumber (int i + 1) 1 startTime endTime,
        Discipline = disciplineName, Teacher = teacherName, Cabinet = cabinetNumber,
        LGroup = (if names ! i = [] then [] else groupName),
        LStudent = names ! i\<rparr>)"
  using extractStudentNames_two [OF assms]
  by (simp add: studentLessons_length studentLessons_nth)

theorem student_records_witness:
  "extractStudentNames exampleStrings ''Ivanov/'' = Inr [''Ivanov'', []] \<and>
   studentLessons ''2025-03-10'' 1 ''Vocal'' ''Sidorov B.B.'' ''K3-12'' ''MD-21-o''
       ''08:30'' ''10:00'' 0 [''Ivanov'', []] =
     [\<lparr>Time = NewLessonTime ''2025-03-10'' 1 1 1 ''08:30'' ''10:00'',
       Discipline = ''Vocal'', Teacher = ''Sidorov B.B.'', Cabinet = ''K3-12'',
       LGroup = ''MD-21-o'', LStudent = ''Ivanov''\<rparr>,
      \<lparr>Time = NewLessonTime ''2025-03-10'' 1 2 1 ''08:30'' ''10:00'',
       Discipline = ''Vocal'', Teacher = ''Sidorov B.B.'', Cabinet = ''K3-12'',
       LGroup = [], LStudent = []\<rparr>]"
proof -
  let ?ls = "studentLessons ''2025-03-10'' 1 ''Vocal'' ''Sidorov B.B.'' ''K3-12'' ''MD-21-o''
       ''08:30'' ''10:00'' 0 [''Ivanov'', []]"
  from student_records [OF example_names, of "''2025-03-10''" 1 "''Vocal''" "''Sidorov B.B.''"
      "''K3-12''" "''MD-21-o''" "''08:30''" "''10:00''"]
  have len: "length ?ls = 2"
    and nth: "\<forall>i < 2. ?ls ! i =
       \<lparr>Time = NewLessonTime ''2025-03-10'' 1 (int i + 1) 1 ''08:30'' ''10:00'',
        Discipline = ''Vocal'', Teacher = ''Sidorov B.B.'', Cabinet = ''K3-12'',
        LGroup = (if [''Ivanov'', []] ! i = [] then [] else ''MD-21-o''),
        LStudent = [''Ivanov'', []] ! i\<rparr>"
    by simp_all
  from nth have "?ls ! 0 = \<lparr>Time = NewLessonTime ''2025-03-10'' 1 1 1 ''08:30'' ''10:00'',
       Discipline = ''Vocal'', Teacher = ''Sidorov B.B.'', Cabinet = ''K3-12'',
       LGroup = ''MD-21-o'', LStudent = ''Ivanov''\<rparr>"
    by simp
  moreover from nth have "?ls ! 1 = \<lparr>Time = NewLessonTime ''2025-03-10'' 1 2 1 ''08:30'' ''10:00'',
       Discipline = ''Vocal'', Teacher = ''Sidorov B.B.'', Cabinet = ''K3-12'',
       LGroup = [], LStudent = []\<rparr>"
    by simp
  ultimately have "?ls = [\<lparr>Time = NewLessonTime ''2025-03-10'' 1 1 1 ''08:30'' ''10:00'',
       Discipline = ''Vocal'', Teacher = ''Sidorov B.B.'', Cabinet = ''K3-12'',
       LGroup = ''MD-21-o'', LStudent = ''Ivanov''\<rparr>,
      \<lparr>Time = NewLessonTime ''2025-03-10'' 1 2 1 ''08:30'' ''10:00'',
       Discipline = ''Vocal'', Teacher = ''Sidorov B.B.'', Cabinet = ''K3-12'',
       LGroup = [], LStudent = []\<rparr>]"
    using len by (intro nth_equalityI) (auto simp: less_Suc_eq numeral_2_eq_2)
  with example_names show ?thesis by simp
qed

text \<open>
  The claim as the specification states it has the group blanked whenever the name is not
  empty. The source blanks it when \<open>studentName == ""\<close>: a cell with one name gives two
  records that both carry the student and the group of the row.
\<close>

theorem group_blanking_counterexample:
  "extractStudentNames exampleStrings ''Ivanov'' = Inr [''Ivanov'', ''Ivanov''] \<and>
   map (\<lambda>l. (PairHalf (Time l), LStudent l, LGroup l))
     (studentLessons ''2025-03-10'' 1 ''Vocal'' ''Sidorov B.B.'' ''K3-12'' ''MD-21-o''
        ''08:30'' ''10:00'' 0 [''Ivanov'', ''Ivanov'']) =
     [(1, ''Ivanov'', ''MD-21-o''), (2, ''Ivanov'', ''MD-21-o'')]"
  by (simp add: extractStudentNames_def exampleStrings_def NewLessonTime_def Let_def)

section \<open>Merging across instructors\<close>

lemma groupLoop_nonempty:
  "(k, g) \<in> set (groupLoop key [] xs) \<Longrightarrow> g \<noteq> [] \<and> (\<forall>x \<in> set g. key x = k)"
  unfolding groupLoop_entries by (auto simp: filter_empty_conv)

lemma mergeTeachers_emit_key:
  "r \<in> set (mergeTeachers_emit g) \<Longrightarrow> g \<noteq> [] \<and> mergeKey tp r = mergeKey tp (hd g)"
  by (auto simp: mergeTeachers_emit_def mergeKey_def Let_def split: if_splits)

lemma emit_filter_other:
  assumes "\<forall>(k, g) \<in> set gs. g \<noteq> [] \<and> (\<forall>x \<in> set g. mergeKey tp x = k)"
    and "k0 \<notin> fst ` set gs"
  shows "[r \<leftarrow> concat (map (\<lambda>(key, grp). mergeTeachers_emit grp) gs). mergeKey tp r = k0] = []"
proof -
  have "mergeKey tp r \<noteq> k0" if "r \<in> set (mergeTeachers_emit g)" and "(k, g) \<in> set gs" for r k g
  proof -
    from mergeTeachers_emit_key [OF that(1)] have "g \<noteq> []" "mergeKey tp r = mergeKey tp (hd g)"
      by simp_all
    moreover from assms(1) that(2) have "mergeKey tp (hd g) = k"
      using \<open>g \<noteq> []\<close> by (auto dest: hd_in_set)
    moreover from that(2) assms(2) have "k \<noteq> k0" by force
    ultimately show ?thesis by simp
  qed
  then show ?thesis by (auto simp: filter_empty_conv)
qed

lemma emit_filter_key:
  assumes "distinct (map fst gs)"
    and "\<forall>(k, g) \<in> set gs. g \<noteq> [] \<and> (\<forall>x \<in> set g. mergeKey tp x = k)"
    and "(k0, g0) \<in> set gs"
  shows "[r \<leftarrow> concat (map (\<lambda>(key, grp). mergeTeachers_emit grp) gs). mergeKey tp r = k0] =
           mergeTeachers_emit g0"
  using assms
proof (induction gs)
  case Nil
  then show ?case by simp
next
  case (Cons e gs)
  obtain k g where e: "e = (k, g)" by (cases e)
  from Cons.prems(2) e have wf_g: "g \<noteq> []" "\<forall>x \<in> set g. mergeKey tp x = k"
    and wf_gs: "\<forall>(k, g) \<in> set gs. g \<noteq> [] \<and> (\<forall>x \<in> set g. mergeKey tp x = k)"
    by auto
  from Cons.prems(1) e have dist: "distinct (map fst gs)" and fresh: "k \<notin> fst ` set gs"
    by auto
  have own: "[r \<leftarrow> mergeTeachers_emit g. mergeKey tp r = k] = mergeTeachers_emit g"
  proof -
    have "mergeKey tp r = k" if "r \<in> set (mergeTeachers_emit g)" for r
      using mergeTeachers_emit_key [OF that, of tp] wf_g by (auto dest: hd_in_set)
    then show ?thesis by (auto simp: filter_id_conv)
  qed
  show ?case
  proof (cases "k0 = k")
    case True
    with Cons.prems(3) e fresh have "g0 = g" by force
    with True own emit_filter_other [OF wf_gs fresh] e show ?thesis by simp
  next
    case False
    with Cons.prems(3) e have mem: "(k0, g0) \<in> set gs" by simp
    have "[r \<leftarrow> mergeTeachers_emit g. mergeKey tp r = k0] = []"
    proof -
      have "mergeKey tp r \<noteq> k0" if "r \<in> set (mergeTeachers_emit g)" for r
        using mergeTeachers_emit_key [OF that, of tp] wf_g False by (auto dest: hd_in_set)
      then show ?thesis by (auto simp: filter_empty_conv)
    qed
    with Cons.IH [OF dist wf_gs mem] e show ?thesis by simp
  qed
qed

text \<open>
  The records of the output that have the key of a given input lesson are exactly one: the
  first lesson of the key's group with the sorted distinct non-empty instructors of the
  group joined by \<open>"& "\<close> when the group has more than one lesson, and the lesson itself
  when it is alone. The key is the text that \<open>mergeTeachers\<close> formats.
\<close>

lemma mergeTeachers_by_key:
  assumes "lesson \<in> set lessons"
  shows
   "[r \<leftarrow> mergeTeachers tp lessons. mergeKey tp r = mergeKey tp lesson] =
      (if length [x \<leftarrow> lessons. mergeKey tp x = mergeKey tp lesson] > 1
       then [(hd [x \<leftarrow> lessons. mergeKey tp x = mergeKey tp lesson])
               \<lparr>Teacher :=
                  join (sorted_list_of_set
                          (set (filter (\<lambda>t. t \<noteq> [])
                             (map Teacher [x \<leftarrow> lessons. mergeKey tp x = mergeKey tp lesson]))))
                    ''& ''\<rparr>]
       else [lesson])"
proof -
  let ?k = "mergeKey tp lesson"
  let ?g = "[x \<leftarrow> lessons. mergeKey tp x = ?k]"
  let ?gs = "groupLoop (mergeKey tp) [] lessons"
  have dist: "distinct (map fst ?gs)" by (rule groupLoop_distinct) simp
  have wf: "\<forall>(k, g) \<in> set ?gs. g \<noteq> [] \<and> (\<forall>x \<in> set g. mergeKey tp x = k)"
    using groupLoop_nonempty [of _ _ "mergeKey tp" lessons] by blast
  have mem: "(?k, ?g) \<in> set ?gs"
    unfolding groupLoop_entries using assms by simp
  have out: "[r \<leftarrow> mergeTeachers tp lessons. mergeKey tp r = ?k] = mergeTeachers_emit ?g"
    unfolding mergeTeachers_def by (rule emit_filter_key [OF dist wf mem])
  have inG: "lesson \<in> set ?g" using assms by simp
  then have ne: "?g \<noteq> []" by (auto simp: filter_empty_conv)
  show ?thesis
  proof (cases "length ?g > 1")
    case True
    with ne show ?thesis
      unfolding out by (simp add: mergeTeachers_emit_def Let_def)
  next
    case False
    with ne have "length ?g = 1" by (cases ?g) auto
    then obtain y where y: "?g = [y]" by (cases ?g) auto
    with inG have "y = lesson" by simp
    with y False show ?thesis
      unfolding out by (simp add: mergeTeachers_emit_def Let_def)
  qed
qed

lemma bar_keys: "mergeKey exampleTime barLesson2 = mergeKey exampleTime barLesson1"
  by (simp add: mergeKey_def barLesson1_def barLesson2_def roomK3_def DateString_def
      exampleTime_def NewLessonTime_def)

lemma two_teachers:
  "sorted_list_of_set (set [''Petrov A.A.'', ''Sidorov B.B.'']) =
     [''Petrov A.A.'', ''Sidorov B.B.'']"
  by (simp add: sorted_list_of_set_sort_remdups)

section \<open>Two different slots with one key text\<close>

text \<open>
  Claim C5. The claim groups the records by the seven fields date, period, half,
  discipline, room, group and student. \<open>mergeTeachers\<close> groups them by the text of these
  fields with vertical bars between them, and the comment above it calls that a unique
  key. The two records below differ in discipline, room and student and still have the
  same key text, since a bar occurs inside a discipline and a student name: they are
  merged into one record, the first with both instructors, and the second record is lost.
\<close>

theorem mergeTeachers_key_collision:
  "mergeTeachers exampleTime [barLesson1, barLesson2] =
     [barLesson1\<lparr>Teacher := ''Petrov A.A.& Sidorov B.B.''\<rparr>] \<and>
   Discipline barLesson1 \<noteq> Discipline barLesson2 \<and>
   Cabinet barLesson1 \<noteq> Cabinet barLesson2 \<and>
   LStudent barLesson1 \<noteq> LStudent barLesson2"
proof -
  have grp: "groupLoop (mergeKey exampleTime) [] [barLesson1, barLesson2] =
      [(mergeKey exampleTime barLesson1, [barLesson1, barLesson2])]"
    by (simp add: bar_keys)
  have t: "Teacher barLesson1 = ''Petrov A.A.''" "Teacher barLesson2 = ''Sidorov B.B.''"
    by (simp_all add: barLesson1_def barLesson2_def)
  have names: "set (filter (\<lambda>t. t \<noteq> []) (map Teacher [barLesson1, barLesson2])) =
      set [''Petrov A.A.'', ''Sidorov B.B.'']"
    by (simp add: t)
  have "mergeTeachers_emit [barLesson1, barLesson2] =
      [barLesson1\<lparr>Teacher := ''Petrov A.A.& Sidorov B.B.''\<rparr>]"
    unfolding mergeTeachers_emit_def Let_def names two_teachers by simp
  then have "mergeTeachers exampleTime [barLesson1, barLesson2] =
     [barLesson1\<lparr>Teacher := ''Petrov A.A.& Sidorov B.B.''\<rparr>]"
    unfolding mergeTeachers_def grp by simp
  moreover have "Discipline barLesson1 \<noteq> Discipline barLesson2"
    "Cabinet barLesson1 \<noteq> Cabinet barLesson2" "LStudent barLesson1 \<noteq> LStudent barLesson2"
    by (simp_all add: barLesson1_def barLesson2_def roomK3_def)
  ultimately show ?thesis by simp
qed

section \<open>Rejoining half-periods: auxiliary facts\<close>

lemma joinInd_put_keys:
  "map fst (joinInd_put k h l m) = (if k \<in> fst ` set m then map fst m else map fst m @ [k])"
  by (induction m) force+

lemma joinInd_put_map_of:
  "map_of (joinInd_put k h l m) k' =
     (if k' = k then Some ((case map_of m k of None \<Rightarrow> Map.empty | Some pm \<Rightarrow> pm)(h \<mapsto> l))
      else map_of m k')"
  by (induction m) (auto simp: fun_eq_iff)

lemma joinInd_put_init:
  "initHalf (joinInd_put k h l m) k' h' =
     (if k' = k \<and> h' = h then Some l else initHalf m k' h')"
  by (simp add: initHalf_def joinInd_put_map_of split: option.splits)

lemma joinInd_put_dom: "fst ` set (joinInd_put k h l m) = insert k (fst ` set m)"
proof -
  have "set (map fst (joinInd_put k h l m)) = insert k (set (map fst m))"
    unfolding joinInd_put_keys by auto
  then show ?thesis by simp
qed

lemma joinInd_collect_distinct:
  "distinct (map fst m) \<Longrightarrow> distinct (map fst (joinInd_collect tp m ls))"
  by (induction ls arbitrary: m) (simp_all add: joinInd_put_keys)

lemma joinInd_collect_dom:
  "fst ` set (joinInd_collect tp m ls) = fst ` set m \<union> joinKey tp ` set ls"
  by (induction ls arbitrary: m) (auto simp: joinInd_put_dom)

lemma halfOf_Cons:
  "halfOf tp (x # xs) k h =
     (case halfOf tp xs k h of
        Some l \<Rightarrow> Some l
      | None \<Rightarrow> if joinKey tp x = k \<and> PairHalf (Time x) = h then Some x else None)"
  by (simp add: halfOf_def lastOf_def)

lemma joinInd_collect_half:
  "initHalf (joinInd_collect tp m ls) k h =
     (case halfOf tp ls k h of Some l \<Rightarrow> Some l | None \<Rightarrow> initHalf m k h)"
proof (induction ls arbitrary: m)
  case Nil
  show ?case by (simp add: halfOf_def lastOf_def)
next
  case (Cons x xs)
  show ?case
    by (simp add: Cons.IH joinInd_put_init halfOf_Cons split: option.splits) 
qed

lemma distinct_key_filter:
  "distinct (map fst m) \<Longrightarrow> (k, v) \<in> set m \<Longrightarrow> [p \<leftarrow> m. fst p = k] = [(k, v)]"
proof (induction m)
  case Nil
  then show ?case by simp
next
  case (Cons e es)
  show ?case
  proof (cases "fst e = k")
    case True
    with Cons.prems have "e = (k, v)" by (cases e) force
    moreover have "[p \<leftarrow> es. fst p = k] = []"
    proof -
      from True Cons.prems(1) have "k \<notin> fst ` set es" by simp
      then have "fst p \<noteq> k" if "p \<in> set es" for p using that by blast
      then show ?thesis by (simp add: filter_empty_conv)
    qed
    ultimately show ?thesis by simp
  next
    case False
    with Cons show ?thesis by auto
  qed
qed

lemma joinInd_entry:
  assumes "lesson \<in> set lessons"
  shows "\<exists>pm. [p \<leftarrow> joinInd_collect tp [] lessons. fst p = joinKey tp lesson] =
                 [(joinKey tp lesson, pm)] \<and>
              (\<forall>h. pm h = halfOf tp lessons (joinKey tp lesson) h)"
proof -
  let ?m = "joinInd_collect tp [] lessons" and ?k = "joinKey tp lesson"
  have dist: "distinct (map fst ?m)" by (rule joinInd_collect_distinct) simp
  have "?k \<in> fst ` set ?m" using assms by (simp add: joinInd_collect_dom)
  then obtain pm where mem: "(?k, pm) \<in> set ?m" by force
  with dist have mo: "map_of ?m ?k = Some pm" by simp
  have one: "[p \<leftarrow> ?m. fst p = ?k] = [(?k, pm)]"
    using dist mem by (rule distinct_key_filter)
  have "pm h = halfOf tp lessons ?k h" for h
    using joinInd_collect_half [of tp "[]" lessons ?k h] mo
    by (simp add: initHalf_def split: option.splits)
  with one show ?thesis by blast
qed

lemma joinIndLessons_length:
  "length (joinIndLessons tp lessons) = card (joinKey tp ` set lessons)"
proof -
  have "distinct (map fst (joinInd_collect tp [] lessons))"
    by (rule joinInd_collect_distinct) simp
  then have "card (set (map fst (joinInd_collect tp [] lessons))) =
      length (map fst (joinInd_collect tp [] lessons))"
    by (rule distinct_card)
  then show ?thesis
    by (simp add: joinIndLessons_def joinInd_collect_dom)
qed

lemma halfOf_spec:
  "halfOf tp lessons (student, date, number) h = spec_halfRecord tp lessons student date number h"
proof -
  have "(\<lambda>x. joinKey tp x = (student, date, number) \<and> PairHalf (Time x) = h) =
        (\<lambda>x. LStudent x = student \<and> DateString tp (Time x) = date \<and>
              Number (Time x) = number \<and> PairHalf (Time x) = h)"
    by (auto simp: joinKey_def fun_eq_iff)
  then show ?thesis by (simp add: halfOf_def spec_halfRecord_def)
qed

lemma joinKey_image:
  "joinKey tp ` set lessons =
     (\<lambda>x. (LStudent x, DateString tp (Time x), Number (Time x))) ` set lessons"
  by (simp add: joinKey_def image_def)

lemma halfOf_Some:
  assumes "halfOf tp ls k h = Some x"
  shows "joinKey tp x = k \<and> PairHalf (Time x) = h"
proof -
  let ?f = "[y \<leftarrow> ls. joinKey tp y = k \<and> PairHalf (Time y) = h]"
  from assms have ne: "?f \<noteq> []" and x: "x = last ?f"
    by (simp_all add: halfOf_def lastOf_def split: if_splits)
  from ne have "last ?f \<in> set ?f" by (rule last_in_set)
  with x show ?thesis by simp
qed

lemma halfOf_present:
  assumes "x \<in> set ls"
  shows "halfOf tp ls (joinKey tp x) (PairHalf (Time x)) \<noteq> None"
proof -
  from assms have "[y \<leftarrow> ls. joinKey tp y = joinKey tp x \<and> PairHalf (Time y) = PairHalf (Time x)] \<noteq> []"
    by (auto simp: filter_empty_conv)
  then show ?thesis by (simp add: halfOf_def lastOf_def)
qed

lemma joinInd_entry_half:
  assumes "(k, pm) \<in> set (joinInd_collect tp [] lessons)"
  shows "pm h = halfOf tp lessons k h"
proof -
  let ?m = "joinInd_collect tp [] lessons"
  have dist: "distinct (map fst ?m)" by (rule joinInd_collect_distinct) simp
  with assms have mo: "map_of ?m k = Some pm" by simp
  show ?thesis
    using joinInd_collect_half [of tp "[]" lessons k h] mo
    by (simp add: initHalf_def split: option.splits)
qed

lemma joinInd_emit_key:
  assumes "\<And>h. pm h = halfOf tp lessons k h"
    and "halfOf tp lessons k 1 \<noteq> None \<or> halfOf tp lessons k 2 \<noteq> None"
  shows "joinKey tp (joinInd_emit tp pm) = k"
proof (cases "halfOf tp lessons k 1")
  case None
  with assms(2) obtain l2 where l2: "halfOf tp lessons k 2 = Some l2" by auto
  from halfOf_Some [OF l2] have "joinKey tp l2 = k" by simp
  with None l2 show ?thesis
    by (simp add: joinInd_emit_def assms(1) joinKey_def DateString_def)
next
  case (Some l1)
  from halfOf_Some [OF Some] have "joinKey tp l1 = k" by simp
  with Some show ?thesis
    by (cases "halfOf tp lessons k 2")
       (simp_all add: joinInd_emit_def assms(1) joinKey_def DateString_def)
qed

text \<open>
  When every lesson of the input is a half-period record, every emitted record has the
  key of its entry, so the records of the output with a given key are those emitted for
  the entries of that key.
\<close>

lemma joinIndLessons_by_key:
  assumes "\<forall>x \<in> set lessons. PairHalf (Time x) = 1 \<or> PairHalf (Time x) = 2"
  shows "[r \<leftarrow> joinIndLessons tp lessons. joinKey tp r = k] =
         map (\<lambda>(key, pairMap). joinInd_emit tp pairMap)
           [p \<leftarrow> joinInd_collect tp [] lessons. fst p = k]"
proof -
  let ?m = "joinInd_collect tp [] lessons"
  have key: "joinKey tp (joinInd_emit tp (snd p)) = fst p" if p: "p \<in> set ?m" for p
  proof -
    obtain k' pm where pe: "p = (k', pm)" by (cases p)
    from p pe have "k' \<in> fst ` set ?m" by force
    then have "k' \<in> joinKey tp ` set lessons" by (simp add: joinInd_collect_dom)
    then obtain x where x: "x \<in> set lessons" and kx: "k' = joinKey tp x" by blast
    from halfOf_present [OF x, of tp] kx
    have "halfOf tp lessons k' (PairHalf (Time x)) \<noteq> None" by simp
    moreover from assms x have "PairHalf (Time x) = 1 \<or> PairHalf (Time x) = 2" by blast
    ultimately have some: "halfOf tp lessons k' 1 \<noteq> None \<or> halfOf tp lessons k' 2 \<noteq> None"
      by auto
    have "joinKey tp (joinInd_emit tp pm) = k'"
    proof (rule joinInd_emit_key [OF _ some])
      fix h show "pm h = halfOf tp lessons k' h"
        using p pe by (simp add: joinInd_entry_half)
    qed
    with pe show ?thesis by simp
  qed
  have "[p \<leftarrow> ?m. joinKey tp (joinInd_emit tp (snd p)) = k] = [p \<leftarrow> ?m. fst p = k]"
    by (rule filter_cong) (simp_all add: key)
  then show ?thesis
    by (simp add: joinIndLessons_def filter_map comp_def case_prod_unfold)
qed

section \<open>Rejoining half-periods\<close>

text \<open>
  Claim C4. The group of an input lesson is the lessons of the input with its student,
  its date (in its string form) and its period number. The map of the rejoin step has
  exactly one entry for the group, so exactly one record \<open>r\<close> is emitted for it; the output
  has one record for each group; and when every input lesson has half 1 or half 2, \<open>r\<close>
  is the only record of the output with that student, date and period number. With \<open>l1\<close>
  and \<open>l2\<close> the records of half 1 and half 2 of the group (the last of each in the input):
  when both are present \<open>r\<close> is \<open>l1\<close> with half 0, two hours, the end time of \<open>l2\<close>, and
  discipline, instructor and room each joined with a slash when the two differ and kept
  when they are equal; when only \<open>l1\<close> is present \<open>r\<close> is \<open>l1\<close> with a slash behind its
  discipline, instructor and room; when only \<open>l2\<close> is present \<open>r\<close> is \<open>l2\<close> with a slash
  before them.
\<close>

theorem rejoin_half_periods:
  assumes "lesson \<in> set lessons"
  shows
   "\<exists>r.
      map (\<lambda>(key, pairMap). joinInd_emit tp pairMap)
        [p \<leftarrow> joinInd_collect tp [] lessons.
           fst p = (LStudent lesson, DateString tp (Time lesson), Number (Time lesson))] = [r] \<and>
      r \<in> set (joinIndLessons tp lessons) \<and>
      length (joinIndLessons tp lessons) =
        card ((\<lambda>x. (LStudent x, DateString tp (Time x), Number (Time x))) ` set lessons) \<and>
      ((\<forall>x \<in> set lessons. PairHalf (Time x) = 1 \<or> PairHalf (Time x) = 2) \<longrightarrow>
         [x \<leftarrow> joinIndLessons tp lessons.
            LStudent x = LStudent lesson \<and>
            DateString tp (Time x) = DateString tp (Time lesson) \<and>
            Number (Time x) = Number (Time lesson)] = [r]) \<and>
      (\<forall>l1 l2.
         spec_halfRecord tp lessons (LStudent lesson) (DateString tp (Time lesson))
           (Number (Time lesson)) 1 = Some l1 \<and>
         spec_halfRecord tp lessons (LStudent lesson) (DateString tp (Time lesson))
           (Number (Time lesson)) 2 = Some l2 \<longrightarrow>
         r = l1\<lparr>Time := (Time l1)\<lparr>PairHalf := 0, Hours := 2, EndTime := EndTime (Time l2)\<rparr>,
              Discipline := (if Discipline l1 = Discipline l2 then Discipline l1
                             else Discipline l1 @ ''/'' @ Discipline l2),
              Teacher := (if Teacher l1 = Teacher l2 then Teacher l1
                          else Teacher l1 @ ''/'' @ Teacher l2),
              Cabinet := (if Cabinet l1 = Cabinet l2 then Cabinet l1
                          else Cabinet l1 @ ''/'' @ Cabinet l2)\<rparr>) \<and>
      (\<forall>l1.
         spec_halfRecord tp lessons (LStudent lesson) (DateString tp (Time lesson))
           (Number (Time lesson)) 1 = Some l1 \<and>
         spec_halfRecord tp lessons (LStudent lesson) (DateString tp (Time lesson))
           (Number (Time lesson)) 2 = None \<longrightarrow>
         r = l1\<lparr>Discipline := Discipline l1 @ ''/'', Teacher := Teacher l1 @ ''/'',
              Cabinet := Cabinet l1 @ ''/''\<rparr>) \<and>
      (\<forall>l2.
         spec_halfRecord tp lessons (LStudent lesson) (DateString tp (Time lesson))
           (Number (Time lesson)) 1 = None \<and>
         spec_halfRecord tp lessons (LStudent lesson) (DateString tp (Time lesson))
           (Number (Time lesson)) 2 = Some l2 \<longrightarrow>
         r = l2\<lparr>Discipline := ''/'' @ Discipline l2, Teacher := ''/'' @ Teacher l2,
              Cabinet := ''/'' @ Cabinet l2\<rparr>)"
proof -
  let ?s = "LStudent lesson" and ?d = "DateString tp (Time lesson)"
    and ?n = "Number (Time lesson)"
  let ?k = "(?s, ?d, ?n)"
  have k: "joinKey tp lesson = ?k" by (simp add: joinKey_def)
  from joinInd_entry [OF assms, of tp] obtain pm
    where one: "[p \<leftarrow> joinInd_collect tp [] lessons. fst p = ?k] = [(?k, pm)]"
      and half: "\<And>h. pm h = spec_halfRecord tp lessons ?s ?d ?n h"
    unfolding k halfOf_spec by blast
  let ?r = "joinInd_emit tp pm"
  have c1: "map (\<lambda>(key, pairMap). joinInd_emit tp pairMap)
        [p \<leftarrow> joinInd_collect tp [] lessons. fst p = ?k] = [?r]"
    unfolding one by simp
  have "(?k, pm) \<in> set [p \<leftarrow> joinInd_collect tp [] lessons. fst p = ?k]"
    unfolding one by simp
  then have "(?k, pm) \<in> set (joinInd_collect tp [] lessons)" by simp
  then have c2: "?r \<in> set (joinIndLessons tp lessons)"
    unfolding joinIndLessons_def by force
  have c3: "length (joinIndLessons tp lessons) =
        card ((\<lambda>x. (LStudent x, DateString tp (Time x), Number (Time x))) ` set lessons)"
    using joinIndLessons_length [of tp lessons] unfolding joinKey_image .
  have c4: "[x \<leftarrow> joinIndLessons tp lessons.
            LStudent x = ?s \<and> DateString tp (Time x) = ?d \<and> Number (Time x) = ?n] = [?r]"
    if halves: "\<forall>x \<in> set lessons. PairHalf (Time x) = 1 \<or> PairHalf (Time x) = 2"
  proof -
    have "(\<lambda>x. LStudent x = ?s \<and> DateString tp (Time x) = ?d \<and> Number (Time x) = ?n) =
          (\<lambda>x. joinKey tp x = ?k)"
      by (auto simp: joinKey_def fun_eq_iff)
    then show ?thesis
      using joinIndLessons_by_key [OF halves, of tp ?k] c1 by simp
  qed
  have both: "?r =
           l1\<lparr>Time := (Time l1)\<lparr>PairHalf := 0, Hours := 2, EndTime := EndTime (Time l2)\<rparr>,
              Discipline := (if Discipline l1 = Discipline l2 then Discipline l1
                             else Discipline l1 @ ''/'' @ Discipline l2),
              Teacher := (if Teacher l1 = Teacher l2 then Teacher l1
                          else Teacher l1 @ ''/'' @ Teacher l2),
              Cabinet := (if Cabinet l1 = Cabinet l2 then Cabinet l1
                          else Cabinet l1 @ ''/'' @ Cabinet l2)\<rparr>"
    if "spec_halfRecord tp lessons ?s ?d ?n 1 = Some l1"
       "spec_halfRecord tp lessons ?s ?d ?n 2 = Some l2" for l1 l2
    using that by (simp add: joinInd_emit_def half)
  have first: "?r =
           l1\<lparr>Discipline := Discipline l1 @ ''/'', Teacher := Teacher l1 @ ''/'',
              Cabinet := Cabinet l1 @ ''/''\<rparr>"
    if "spec_halfRecord tp lessons ?s ?d ?n 1 = Some l1"
       "spec_halfRecord tp lessons ?s ?d ?n 2 = None" for l1
    using that by (simp add: joinInd_emit_def half)
  have second: "?r =
           l2\<lparr>Discipline := ''/'' @ Discipline l2, Teacher := ''/'' @ Teacher l2,
              Cabinet := ''/'' @ Cabinet l2\<rparr>"
    if "spec_halfRecord tp lessons ?s ?d ?n 1 = None"
       "spec_halfRecord tp lessons ?s ?d ?n 2 = Some l2" for l2
    using that by (simp add: joinInd_emit_def half)
  from c4 have c4': "(\<forall>x \<in> set lessons. PairHalf (Time x) = 1 \<or> PairHalf (Time x) = 2) \<longrightarrow>
         [x \<leftarrow> joinIndLessons tp lessons.
            LStudent x = ?s \<and> DateString tp (Time x) = ?d \<and> Number (Time x) = ?n] = [?r]"
    by (rule impI)
  from both have both': "\<forall>l1 l2.
         spec_halfRecord tp lessons ?s ?d ?n 1 = Some l1 \<and>
         spec_halfRecord tp lessons ?s ?d ?n 2 = Some l2 \<longrightarrow>
         ?r = l1\<lparr>Time := (Time l1)\<lparr>PairHalf := 0, Hours := 2, EndTime := EndTime (Time l2)\<rparr>,
              Discipline := (if Discipline l1 = Discipline l2 then Discipline l1
                             else Discipline l1 @ ''/'' @ Discipline l2),
              Teacher := (if Teacher l1 = Teacher l2 then Teacher l1
                          else Teacher l1 @ ''/'' @ Teacher l2),
              Cabinet := (if Cabinet l1 = Cabinet l2 then Cabinet l1
                          else Cabinet l1 @ ''/'' @ Cabinet l2)\<rparr>"
    by blast
  from first have first': "\<forall>l1.
         spec_halfRecord tp lessons ?s ?d ?n 1 = Some l1 \<and>
         spec_halfRecord tp lessons ?s ?d ?n 2 = None \<longrightarrow>
         ?r = l1\<lparr>Discipline := Discipline l1 @ ''/'', Teacher := Teacher l1 @ ''/'',
              Cabinet := Cabinet l1 @ ''/''\<rparr>"
    by blast
  from second have second': "\<forall>l2.
         spec_halfRecord tp lessons ?s ?d ?n 1 = None \<and>
         spec_halfRecord tp lessons ?s ?d ?n 2 = Some l2 \<longrightarrow>
         ?r = l2\<lparr>Discipline := ''/'' @ Discipline l2, Teacher := ''/'' @ Teacher l2,
              Cabinet := ''/'' @ Cabinet l2\<rparr>"
    by blast
  from c1 c2 c3 c4' both' first' second'
  show ?thesis by - (rule exI [of _ ?r], intro conjI, assumption+)
qed

theorem rejoin_half_periods_witness:
  "joinIndLessons exampleTime
     [individualLesson ''Ivanov I.I.'' ''2025-03-10'' 3 1,
      (individualLesson ''Ivanov I.I.'' ''2025-03-10'' 3 2)
        \<lparr>Teacher := ''Petrov A.A.'', Time := NewLessonTime ''2025-03-10'' 3 2 1 ''11:50'' ''13:20''\<rparr>] =
     [\<lparr>Time = NewLessonTime ''2025-03-10'' 3 0 2 ''2025-03-10'' ''13:20'',
       Discipline = ''Vocal'', Teacher = ''Sidorov B.B./Petrov A.A.'', Cabinet = ''K3-12'',
       LGroup = [], LStudent = ''Ivanov I.I.''\<rparr>]"
proof -
  let ?a = "individualLesson ''Ivanov I.I.'' ''2025-03-10'' 3 1"
  let ?b = "(individualLesson ''Ivanov I.I.'' ''2025-03-10'' 3 2)
        \<lparr>Teacher := ''Petrov A.A.'', Time := NewLessonTime ''2025-03-10'' 3 2 1 ''11:50'' ''13:20''\<rparr>"
  have sa: "LStudent ?a = ''Ivanov I.I.''" and da: "DateString exampleTime (Time ?a) = ''2025-03-10''"
    and na: "Number (Time ?a) = 3"
    by (simp_all add: individualLesson_def NewLessonTime_def DateString_def exampleTime_def)
  have h1: "spec_halfRecord exampleTime [?a, ?b] ''Ivanov I.I.'' ''2025-03-10'' 3 1 = Some ?a"
    by (simp add: spec_halfRecord_def lastOf_def individualLesson_def NewLessonTime_def
        DateString_def exampleTime_def)
  have h2: "spec_halfRecord exampleTime [?a, ?b] ''Ivanov I.I.'' ''2025-03-10'' 3 2 = Some ?b"
    by (simp add: spec_halfRecord_def lastOf_def individualLesson_def NewLessonTime_def
        DateString_def exampleTime_def)
  have keys: "(\<lambda>x. (LStudent x, DateString exampleTime (Time x), Number (Time x))) ` set [?a, ?b] =
      {(''Ivanov I.I.'', ''2025-03-10'', 3)}"
    by (simp add: individualLesson_def NewLessonTime_def DateString_def exampleTime_def)
  have a: "?a \<in> set [?a, ?b]" by simp
  from rejoin_half_periods [OF a, of exampleTime] obtain r
    where mem: "r \<in> set (joinIndLessons exampleTime [?a, ?b])"
      and len: "length (joinIndLessons exampleTime [?a, ?b]) =
          card ((\<lambda>x. (LStudent x, DateString exampleTime (Time x), Number (Time x))) ` set [?a, ?b])"
      and emit: "\<And>l1 l2.
         spec_halfRecord exampleTime [?a, ?b] (LStudent ?a) (DateString exampleTime (Time ?a))
           (Number (Time ?a)) 1 = Some l1 \<and>
         spec_halfRecord exampleTime [?a, ?b] (LStudent ?a) (DateString exampleTime (Time ?a))
           (Number (Time ?a)) 2 = Some l2 \<Longrightarrow>
         r = l1\<lparr>Time := (Time l1)\<lparr>PairHalf := 0, Hours := 2, EndTime := EndTime (Time l2)\<rparr>,
              Discipline := (if Discipline l1 = Discipline l2 then Discipline l1
                             else Discipline l1 @ ''/'' @ Discipline l2),
              Teacher := (if Teacher l1 = Teacher l2 then Teacher l1
                          else Teacher l1 @ ''/'' @ Teacher l2),
              Cabinet := (if Cabinet l1 = Cabinet l2 then Cabinet l1
                          else Cabinet l1 @ ''/'' @ Cabinet l2)\<rparr>"
    by blast
  have r: "r = ?a\<lparr>Time := (Time ?a)\<lparr>PairHalf := 0, Hours := 2, EndTime := EndTime (Time ?b)\<rparr>,
              Discipline := (if Discipline ?a = Discipline ?b then Discipline ?a
                             else Discipline ?a @ ''/'' @ Discipline ?b),
              Teacher := (if Teacher ?a = Teacher ?b then Teacher ?a
                          else Teacher ?a @ ''/'' @ Teacher ?b),
              Cabinet := (if Cabinet ?a = Cabinet ?b then Cabinet ?a
                          else Cabinet ?a @ ''/'' @ Cabinet ?b)\<rparr>"
    by (rule emit) (unfold sa da na, rule conjI [OF h1 h2])
  from len have "length (joinIndLessons exampleTime [?a, ?b]) = 1"
    unfolding keys by simp
  with mem have "joinIndLessons exampleTime [?a, ?b] = [r]"
    by (cases "joinIndLessons exampleTime [?a, ?b]") auto
  then show ?thesis
    unfolding r by (simp add: individualLesson_def NewLessonTime_def)
qed

section \<open>The tabular scan and the lessons repository: auxiliary facts\<close>

lemma scanFiles_concat:
  "scanFiles openFile allLessons filePaths =
     allLessons @ concat (map (\<lambda>filePath. case openFile filePath of
                                 OpenFailed err \<Rightarrow> [] | NoSheet \<Rightarrow> [] | Sheet found \<Rightarrow> found)
                            filePaths)"
  by (induction filePaths arbitrary: allLessons) (simp_all split: xlsFile.splits)

lemma scanFiles_skip:
  assumes "(\<exists>err. openFile badPath = OpenFailed err) \<or> openFile badPath = NoSheet"
  shows "scanFiles openFile allLessons (before @ badPath # after) =
         scanFiles openFile allLessons (before @ after)"
  using assms by (auto simp: scanFiles_concat)

lemma Parse_found:
  assumes "loadFilePaths fs = Inr filePaths" and "goodPath \<in> set filePaths"
    and "xlsOpen fs goodPath = Sheet found" and "found \<noteq> []"
  shows "IndividualScheduleParser_Parse tp fs =
     Inr (joinIndLessons tp (mergeTeachers tp
       (concat (map (\<lambda>filePath. case xlsOpen fs filePath of
                      OpenFailed err \<Rightarrow> [] | NoSheet \<Rightarrow> [] | Sheet sheetLessons \<Rightarrow> sheetLessons)
                 filePaths))))"
proof -
  let ?sheet = "\<lambda>filePath. case xlsOpen fs filePath of
                      OpenFailed err \<Rightarrow> [] | NoSheet \<Rightarrow> [] | Sheet sheetLessons \<Rightarrow> sheetLessons"
  from assms(2,3) have "found \<in> set (map ?sheet filePaths)" by force
  with assms(4) have "concat (map ?sheet filePaths) \<noteq> []" by auto
  then show ?thesis
    by (simp add: IndividualScheduleParser_Parse_def assms(1) scanFiles_concat Let_def)
qed

lemma fetchAll_set:
  "set (fetchAll groupParse pairs) =
     {l. \<exists>dep grp fetched. (dep, grp) \<in> set pairs \<and> groupParse dep grp = Inr fetched \<and>
           l \<in> set fetched}"
proof (induction pairs)
  case Nil
  show ?case by simp
next
  case (Cons p pairs)
  obtain dep grp where p: "p = (dep, grp)" by (cases p)
  show ?case
  proof (cases "groupParse dep grp")
    case (Inl err)
    with p Cons.IH show ?thesis by auto
  next
    case (Inr fetched)
    with p Cons.IH show ?thesis by auto
  qed
qed

lemma fetchLog_set:
  "set (fetchLog groupParse pairs) =
     {e. \<exists>dep grp err. (dep, grp) \<in> set pairs \<and> groupParse dep grp = Inl err \<and>
           e = GroupScheduleError grp err}"
proof (induction pairs)
  case Nil
  show ?case by simp
next
  case (Cons p pairs)
  obtain dep grp where p: "p = (dep, grp)" by (cases p)
  show ?case
  proof (cases "groupParse dep grp")
    case (Inl err)
    with p Cons.IH show ?thesis by auto
  next
    case (Inr fetched)
    with p Cons.IH show ?thesis by auto
  qed
qed

lemma fetchAll_all_failed:
  "(\<forall>dep grp. isl (groupParse dep grp)) \<Longrightarrow> fetchAll groupParse pairs = []"
proof (induction pairs)
  case Nil
  show ?case by simp
next
  case (Cons p pairs)
  obtain dep grp where p: "p = (dep, grp)" by (cases p)
  from Cons.prems have "isl (groupParse dep grp)" by simp
  then obtain err where "groupParse dep grp = Inl err" by (cases "groupParse dep grp") auto
  with p Cons.IH [OF Cons.prems] show ?case by simp
qed

lemma GetLessons_error: "snd (fst (GetLessons r tp fs groupParse nowGet nowSet)) = None"
  by (simp add: GetLessons_def Let_def split: prod.splits option.splits sum.splits)

lemma GetLessons_lessons:
  "fst (fst (GetLessons r tp fs groupParse nowGet nowSet)) =
     r_lessons r @
     (case IndividualScheduleParser_Parse tp fs of Inr found \<Rightarrow> found | Inl err \<Rightarrow> []) @
     (case fst (GroupLessonsCache_Get (r_cache r) (r_weekStart r) nowGet) of
        Some cachedLessons \<Rightarrow> cachedLessons
      | None \<Rightarrow> fetchAll groupParse (List.product (r_departments r) (r_groups r)))"
  by (cases "IndividualScheduleParser_Parse tp fs")
     (auto simp: GetLessons_def Let_def split: prod.splits option.splits)

lemma GetLessons_log:
  "snd (snd (GetLessons r tp fs groupParse nowGet nowSet)) =
     (case IndividualScheduleParser_Parse tp fs of
        Inr found \<Rightarrow> [] | Inl err \<Rightarrow> [IndividualScheduleError err]) @
     (case fst (GroupLessonsCache_Get (r_cache r) (r_weekStart r) nowGet) of
        Some cachedLessons \<Rightarrow> []
      | None \<Rightarrow> fetchLog groupParse (List.product (r_departments r) (r_groups r)))"
  by (cases "IndividualScheduleParser_Parse tp fs")
     (auto simp: GetLessons_def Let_def split: prod.splits option.splits)

lemma ValidateSchedule_no_lessons: "ValidateSchedule tp students [] = []"
  by (induction students)
     (simp_all add: ValidateSchedule_def validateStudent_def groupByDate_def)

lemma new_repository_miss:
  "fst (GroupLessonsCache_Get (r_cache (NewLessonsRepository deps grps wk)) wk' now) = None"
  by (simp add: GroupLessonsCache_Get_def NewLessonsRepository_def)

text \<open>The two example file systems: the paths found, and the outcome of the parser.\<close>

lemma brokenDisk_paths: "loadFilePaths brokenDisk = Inr [''/data/a.xls'']"
  by (simp add: loadFilePaths_def brokenDisk_def HasSuffix_def)

lemma brokenDisk_Parse: "IndividualScheduleParser_Parse exampleTime brokenDisk = Inl NoLessonsFound"
  by (simp add: IndividualScheduleParser_Parse_def brokenDisk_paths)
     (simp add: brokenDisk_def)

lemma mixedDisk_paths: "loadFilePaths mixedDisk = Inr [''/data/a.xls'', ''/data/B.XLS'']"
  by (simp add: loadFilePaths_def mixedDisk_def HasSuffix_def)

lemma mixedDisk_open:
  "xlsOpen mixedDisk ''/data/a.xls'' = OpenFailed ''not an xls file''"
  "xlsOpen mixedDisk ''/data/B.XLS'' = Sheet [individualLesson ''Ivanov I.I.'' ''2025-03-10'' 3 1]"
  by (simp_all add: mixedDisk_def)

lemma mergeTeachers_single: "mergeTeachers tp [l] = [l]"
  by (simp add: mergeTeachers_def mergeTeachers_emit_def)

lemma joinIndLessons_single_first:
  "PairHalf (Time l) = 1 \<Longrightarrow>
   joinIndLessons tp [l] =
     [l\<lparr>Discipline := Discipline l @ ''/'', Teacher := Teacher l @ ''/'',
        Cabinet := Cabinet l @ ''/''\<rparr>]"
  by (simp add: joinIndLessons_def joinInd_emit_def)

lemma mixedDisk_lessons:
  "joinIndLessons exampleTime (mergeTeachers exampleTime
       [individualLesson ''Ivanov I.I.'' ''2025-03-10'' 3 1]) =
   [\<lparr>Time = NewLessonTime ''2025-03-10'' 3 1 1 ''2025-03-10'' ''2025-03-10'',
     Discipline = ''Vocal/'', Teacher = ''Sidorov B.B./'', Cabinet = ''K3-12/'',
     LGroup = [], LStudent = ''Ivanov I.I.''\<rparr>]"
  unfolding mergeTeachers_single
  by (simp add: joinIndLessons_single_first individualLesson_def NewLessonTime_def)

section \<open>The ingestion never fails\<close>

text \<open>
  Claim C9, as amended. \<open>GetLessons\<close> returns no error, whatever the tabular parser and the
  remote fetches did. Its lessons are those the repository held, those of the tabular
  parser when it succeeded, and the cached group lessons or else the lessons of every
  remote fetch that succeeded. Its log lines are the error of the tabular parser when it
  failed as a whole and, when the cache missed, one line with the group and the error for
  every remote fetch that failed; nothing else is logged. In the scan of the tabular
  parser a file that cannot be opened or has no first sheet is passed over, the scan
  giving what it gives without that file; and when one of the files found has a sheet
  with a lesson, the parser succeeds, with the rejoined and merged lessons of the files
  that have a sheet, whatever the other files are. The detector gives no violation on an
  empty lesson set, and when the tabular parser and every remote fetch fail,
  \<open>ProcessSchedule\<close> returns no lessons, no violations and no error.
\<close>

theorem ingestion_never_fails:
  "snd (fst (GetLessons r tp fs groupParse nowGet nowSet)) = None \<and>
   set (fst (fst (GetLessons r tp fs groupParse nowGet nowSet))) =
     set (r_lessons r) \<union>
     (case IndividualScheduleParser_Parse tp fs of Inr found \<Rightarrow> set found | Inl err \<Rightarrow> {}) \<union>
     (case fst (GroupLessonsCache_Get (r_cache r) (r_weekStart r) nowGet) of
        Some cachedLessons \<Rightarrow> set cachedLessons
      | None \<Rightarrow>
          {l. \<exists>dep grp fetched. dep \<in> set (r_departments r) \<and> grp \<in> set (r_groups r) \<and>
                groupParse dep grp = Inr fetched \<and> l \<in> set fetched}) \<and>
   set (snd (snd (GetLessons r tp fs groupParse nowGet nowSet))) =
     (case IndividualScheduleParser_Parse tp fs of
        Inr found \<Rightarrow> {} | Inl err \<Rightarrow> {IndividualScheduleError err}) \<union>
     (case fst (GroupLessonsCache_Get (r_cache r) (r_weekStart r) nowGet) of
        Some cachedLessons \<Rightarrow> {}
      | None \<Rightarrow>
          {e. \<exists>dep grp err. dep \<in> set (r_departments r) \<and> grp \<in> set (r_groups r) \<and>
                groupParse dep grp = Inl err \<and> e = GroupScheduleError grp err}) \<and>
   ((\<exists>err. xlsOpen fs badPath = OpenFailed err) \<or> xlsOpen fs badPath = NoSheet \<longrightarrow>
      scanFiles (xlsOpen fs) allLessons (before @ badPath # after) =
        scanFiles (xlsOpen fs) allLessons (before @ after)) \<and>
   (loadFilePaths fs = Inr filePaths \<and> goodPath \<in> set filePaths \<and>
    xlsOpen fs goodPath = Sheet found \<and> found \<noteq> [] \<longrightarrow>
      IndividualScheduleParser_Parse tp fs =
        Inr (joinIndLessons tp (mergeTeachers tp
          (concat (map (\<lambda>filePath. case xlsOpen fs filePath of
                          OpenFailed err \<Rightarrow> [] | NoSheet \<Rightarrow> []
                        | Sheet sheetLessons \<Rightarrow> sheetLessons) filePaths))))) \<and>
   ValidateSchedule tp students [] = [] \<and>
   (isl (IndividualScheduleParser_Parse tp fs) \<and> (\<forall>dep grp. isl (groupParse dep grp)) \<longrightarrow>
      ProcessSchedule tp wk students fs groupParse nowGet nowSet =
        (\<lparr>Violations = [], Lessons = []\<rparr>, None))"
proof -
  let ?individual = "IndividualScheduleParser_Parse tp fs"
  let ?cached = "fst (GroupLessonsCache_Get (r_cache r) (r_weekStart r) nowGet)"
  have c1: "snd (fst (GetLessons r tp fs groupParse nowGet nowSet)) = None"
    by (rule GetLessons_error)
  have c2: "set (fst (fst (GetLessons r tp fs groupParse nowGet nowSet))) =
     set (r_lessons r) \<union>
     (case ?individual of Inr found \<Rightarrow> set found | Inl err \<Rightarrow> {}) \<union>
     (case ?cached of
        Some cachedLessons \<Rightarrow> set cachedLessons
      | None \<Rightarrow>
          {l. \<exists>dep grp fetched. dep \<in> set (r_departments r) \<and> grp \<in> set (r_groups r) \<and>
                groupParse dep grp = Inr fetched \<and> l \<in> set fetched})"
    unfolding GetLessons_lessons
    by (cases ?individual; cases ?cached) (simp_all add: fetchAll_set Un_assoc)
  have c3: "set (snd (snd (GetLessons r tp fs groupParse nowGet nowSet))) =
     (case ?individual of Inr found \<Rightarrow> {} | Inl err \<Rightarrow> {IndividualScheduleError err}) \<union>
     (case ?cached of
        Some cachedLessons \<Rightarrow> {}
      | None \<Rightarrow>
          {e. \<exists>dep grp err. dep \<in> set (r_departments r) \<and> grp \<in> set (r_groups r) \<and>
                groupParse dep grp = Inl err \<and> e = GroupScheduleError grp err})"
    unfolding GetLessons_log
    by (cases ?individual; cases ?cached) (simp_all add: fetchLog_set)
  have c4: "(\<exists>err. xlsOpen fs badPath = OpenFailed err) \<or> xlsOpen fs badPath = NoSheet \<longrightarrow>
      scanFiles (xlsOpen fs) allLessons (before @ badPath # after) =
        scanFiles (xlsOpen fs) allLessons (before @ after)"
    using scanFiles_skip [of "xlsOpen fs" badPath allLessons before after] by blast
  have c5: "loadFilePaths fs = Inr filePaths \<and> goodPath \<in> set filePaths \<and>
    xlsOpen fs goodPath = Sheet found \<and> found \<noteq> [] \<longrightarrow>
      ?individual =
        Inr (joinIndLessons tp (mergeTeachers tp
          (concat (map (\<lambda>filePath. case xlsOpen fs filePath of
                          OpenFailed err \<Rightarrow> [] | NoSheet \<Rightarrow> []
                        | Sheet sheetLessons \<Rightarrow> sheetLessons) filePaths))))"
    using Parse_found [of fs filePaths goodPath found tp] by blast
  have c6: "ValidateSchedule tp students [] = []"
    by (rule ValidateSchedule_no_lessons)
  have c7: "isl ?individual \<and> (\<forall>dep grp. isl (groupParse dep grp)) \<longrightarrow>
      ProcessSchedule tp wk students fs groupParse nowGet nowSet =
        (\<lparr>Violations = [], Lessons = []\<rparr>, None)"
  proof
    assume fail: "isl ?individual \<and> (\<forall>dep grp. isl (groupParse dep grp))"
    then obtain err where ind: "?individual = Inl err" by (cases ?individual) auto
    from fail have none: "fetchAll groupParse pairs = []" for pairs
      by (simp add: fetchAll_all_failed)
    have "fst (fst (GetLessons (NewLessonsRepository (remdups (map Department students))
        (remdups (map Group students)) wk) tp fs groupParse nowGet nowSet)) = []"
      unfolding GetLessons_lessons new_repository_miss
      by (simp add: ind none NewLessonsRepository_def)
    then show "ProcessSchedule tp wk students fs groupParse nowGet nowSet =
          (\<lparr>Violations = [], Lessons = []\<rparr>, None)"
      by (simp add: ProcessSchedule_def Let_def ValidateSchedule_no_lessons)
  qed
  from c1 c2 c3 c4 c5 c6 c7 show ?thesis by - (intro conjI, assumption+)
qed

theorem ingestion_never_fails_witness:
  "xlsOpen mixedDisk ''/data/a.xls'' = OpenFailed ''not an xls file'' \<and>
   scanFiles (xlsOpen mixedDisk) [] ([] @ ''/data/a.xls'' # [''/data/B.XLS'']) =
     scanFiles (xlsOpen mixedDisk) [] ([] @ [''/data/B.XLS'']) \<and>
   loadFilePaths mixedDisk = Inr [''/data/a.xls'', ''/data/B.XLS''] \<and>
   xlsOpen mixedDisk ''/data/B.XLS'' =
     Sheet [individualLesson ''Ivanov I.I.'' ''2025-03-10'' 3 1] \<and>
   IndividualScheduleParser_Parse exampleTime mixedDisk =
     Inr [\<lparr>Time = NewLessonTime ''2025-03-10'' 3 1 1 ''2025-03-10'' ''2025-03-10'',
       Discipline = ''Vocal/'', Teacher = ''Sidorov B.B./'', Cabinet = ''K3-12/'',
       LGroup = [], LStudent = ''Ivanov I.I.''\<rparr>] \<and>
   isl (IndividualScheduleParser_Parse exampleTime brokenDisk) \<and>
   ProcessSchedule exampleTime [] [exampleStudent 2] brokenDisk
     (\<lambda>dep grp. Inl (GroupNotFound grp)) 0 0 =
     (\<lparr>Violations = [], Lessons = []\<rparr>, None) \<and>
   snd (fst (GetLessons (NewLessonsRepository [''Music''] [''MD-21-o''] [])
     exampleTime brokenDisk (\<lambda>dep grp. Inl (GroupNotFound grp)) 0 0)) = None"
proof -
  note mixed = ingestion_never_fails
    [of "NewLessonsRepository [''Music''] [''MD-21-o''] []" exampleTime mixedDisk
        "\<lambda>dep grp. Inl (GroupNotFound grp)" 0 0 "''/data/a.xls''" "[]" "[]"
        "[''/data/B.XLS'']" "[''/data/a.xls'', ''/data/B.XLS'']" "''/data/B.XLS''"
        "[individualLesson ''Ivanov I.I.'' ''2025-03-10'' 3 1]" "[]" "[]"]
  note broken = ingestion_never_fails
    [of "NewLessonsRepository [''Music''] [''MD-21-o''] []" exampleTime brokenDisk
        "\<lambda>dep grp. Inl (GroupNotFound grp)" 0 0 "''/data/a.xls''" "[]" "[]"
        "[]" "[]" "[]" "[]" "[exampleStudent 2]" "[]"]
  have skip: "scanFiles (xlsOpen mixedDisk) [] ([] @ ''/data/a.xls'' # [''/data/B.XLS'']) =
     scanFiles (xlsOpen mixedDisk) [] ([] @ [''/data/B.XLS''])"
    using mixed mixedDisk_open(1) by blast
  have parse: "IndividualScheduleParser_Parse exampleTime mixedDisk =
     Inr [\<lparr>Time = NewLessonTime ''2025-03-10'' 3 1 1 ''2025-03-10'' ''2025-03-10'',
       Discipline = ''Vocal/'', Teacher = ''Sidorov B.B./'', Cabinet = ''K3-12/'',
       LGroup = [], LStudent = ''Ivanov I.I.''\<rparr>]"
    using mixed mixedDisk_paths mixedDisk_open by (simp add: mixedDisk_lessons)
  have failed: "isl (IndividualScheduleParser_Parse exampleTime brokenDisk)"
    by (simp add: brokenDisk_Parse)
  have run: "ProcessSchedule exampleTime [] [exampleStudent 2] brokenDisk
     (\<lambda>dep grp. Inl (GroupNotFound grp)) 0 0 = (\<lparr>Violations = [], Lessons = []\<rparr>, None)"
    using broken failed by simp
  have none: "snd (fst (GetLessons (NewLessonsRepository [''Music''] [''MD-21-o''] [])
     exampleTime brokenDisk (\<lambda>dep grp. Inl (GroupNotFound grp)) 0 0)) = None"
    using broken by blast
  from skip parse failed run none mixedDisk_open mixedDisk_paths
  show ?thesis by - (intro conjI, assumption+)
qed

text \<open>
  The claim as the specification states it has the ingestion return an error when no
  lesson could be parsed or fetched from any source, and has the failure of a single
  file logged. With the only file unreadable, so that the tabular parser fails for want
  of lessons, and the remote fetch failing, \<open>GetLessons\<close> returns the empty list and \<open>nil\<close>;
  the log holds the error of the tabular parser and that of the fetch. With an unreadable
  file beside a readable one and the remote fetch giving no lessons, nothing is logged.
\<close>

theorem ingestion_error_counterexample:
  "fst (GetLessons (NewLessonsRepository [''Music''] [''MD-21-o''] [])
     exampleTime brokenDisk (\<lambda>dep grp. Inl (GroupNotFound grp)) 0 0) = ([], None) \<and>
   snd (snd (GetLessons (NewLessonsRepository [''Music''] [''MD-21-o''] [])
     exampleTime brokenDisk (\<lambda>dep grp. Inl (GroupNotFound grp)) 0 0)) =
     [IndividualScheduleError NoLessonsFound,
      GroupScheduleError ''MD-21-o'' (GroupNotFound ''MD-21-o'')] \<and>
   xlsOpen mixedDisk ''/data/a.xls'' = OpenFailed ''not an xls file'' \<and>
   loadFilePaths mixedDisk = Inr [''/data/a.xls'', ''/data/B.XLS''] \<and>
   snd (GetLessons (NewLessonsRepository [''Music''] [''MD-21-o''] [])
     exampleTime mixedDisk (\<lambda>dep grp. Inr []) 0 0) =
     (\<lparr>r_departments = [''Music''], r_groups = [''MD-21-o''], r_weekStart = [],
       r_lessons =
         [\<lparr>Time = NewLessonTime ''2025-03-10'' 3 1 1 ''2025-03-10'' ''2025-03-10'',
           Discipline = ''Vocal/'', Teacher = ''Sidorov B.B./'', Cabinet = ''K3-12/'',
           LGroup = [], LStudent = ''Ivanov I.I.''\<rparr>],
       r_cache = [[] \<mapsto> ([], 30 * 60000000000)]\<rparr>, [])"
proof -
  have parse: "IndividualScheduleParser_Parse exampleTime mixedDisk =
     Inr [\<lparr>Time = NewLessonTime ''2025-03-10'' 3 1 1 ''2025-03-10'' ''2025-03-10'',
       Discipline = ''Vocal/'', Teacher = ''Sidorov B.B./'', Cabinet = ''K3-12/'',
       LGroup = [], LStudent = ''Ivanov I.I.''\<rparr>]"
    using Parse_found [OF mixedDisk_paths _ mixedDisk_open(2), of exampleTime]
    by (simp add: mixedDisk_open mixedDisk_lessons)
  have a: "fst (GetLessons (NewLessonsRepository [''Music''] [''MD-21-o''] [])
     exampleTime brokenDisk (\<lambda>dep grp. Inl (GroupNotFound grp)) 0 0) = ([], None)"
    by (simp add: GetLessons_def brokenDisk_Parse NewLessonsRepository_def
        GroupLessonsCache_Get_def GroupLessonsCache_Set_def Let_def)
  have b: "snd (snd (GetLessons (NewLessonsRepository [''Music''] [''MD-21-o''] [])
     exampleTime brokenDisk (\<lambda>dep grp. Inl (GroupNotFound grp)) 0 0)) =
     [IndividualScheduleError NoLessonsFound,
      GroupScheduleError ''MD-21-o'' (GroupNotFound ''MD-21-o'')]"
    by (simp add: GetLessons_def brokenDisk_Parse NewLessonsRepository_def
        GroupLessonsCache_Get_def GroupLessonsCache_Set_def Let_def)
  have c: "snd (GetLessons (NewLessonsRepository [''Music''] [''MD-21-o''] [])
     exampleTime mixedDisk (\<lambda>dep grp. Inr []) 0 0) =
     (\<lparr>r_departments = [''Music''], r_groups = [''MD-21-o''], r_weekStart = [],
       r_lessons =
         [\<lparr>Time = NewLessonTime ''2025-03-10'' 3 1 1 ''2025-03-10'' ''2025-03-10'',
           Discipline = ''Vocal/'', Teacher = ''Sidorov B.B./'', Cabinet = ''K3-12/'',
           LGroup = [], LStudent = ''Ivanov I.I.''\<rparr>],
       r_cache = [[] \<mapsto> ([], 30 * 60000000000)]\<rparr>, [])"
    unfolding GetLessons_def parse
    by (simp add: NewLessonsRepository_def GroupLessonsCache_Get_def
        GroupLessonsCache_Set_def Let_def)
  from a b c mixedDisk_open(1) mixedDisk_paths show ?thesis by simp
qed

end
